theory Spec2Isabelle
  imports Complex_Main "HOL-Library.Word" "HOL-Library.Multiset"
begin

section \<open>The object model of the VM (lib/VM/JSObject.cpp)\<close>

text \<open>
  The heap is an explicit store: one map per kind of cell, from addresses to cells. A
  \<^verbatim>\<open>JSObject *\<close> is an address of the object store (\<open>None\<close> is the null pointer), a
  \<^verbatim>\<open>HiddenClass *\<close> an address of the class store, and so on. Every operation that
  the source writes against \<^verbatim>\<open>Runtime *\<close> takes the store and returns the new one.
\<close>

type_synonym addr = nat

type_synonym SlotIndex = nat

subsection \<open>Symbols, values, flags\<close>

text \<open>
  A \<^verbatim>\<open>SymbolID\<close> is either a uniqued identifier (an interned property-name string of the
  identifier table) or a JS Symbol primitive, which is not uniqued.
\<close>

datatype SymbolID = Identifier string | SymbolPrimitive nat

fun getStringView :: "SymbolID \<Rightarrow> string" where
  "getStringView (Identifier s) = s"
| "getStringView (SymbolPrimitive n) = []"

fun isPropertyNamePrimitive :: "SymbolID \<Rightarrow> bool" where
  "isPropertyNamePrimitive (Identifier s) = True"
| "isPropertyNamePrimitive (SymbolPrimitive n) = False"

text \<open>
  A JS number is a double. Only two things are asked of doubles here: the SameValue
  comparison (NaN is the same value as NaN, the two zeros differ) and the exact image
  of an unsigned 32-bit integer. Structural equality of this type is SameValue.
\<close>

datatype double = NaN | NegZero | Infinity bool | Finite real

datatype HermesValue =
    EmptyValue
  | UndefinedValue
  | NullValue
  | BoolValue bool
  | NumberValue double
  | StringValue string
  | SymbolValue SymbolID
  | ObjectValue addr

definition encodeDoubleValue :: "32 word \<Rightarrow> HermesValue" where
  "encodeDoubleValue i = NumberValue (Finite (real (unat i)))"

text \<open>
  \<^verbatim>\<open>(uint32_t)v.getNumber()\<close>. The source asserts that \<open>v\<close> is a number; it only
  reads back numbers written by \<open>encodeDoubleValue\<close>.
\<close>

fun getNumberAsUint32 :: "HermesValue \<Rightarrow> 32 word" where
  "getNumberAsUint32 (NumberValue (Finite r)) = word_of_int \<lfloor>r\<rfloor>"
| "getNumberAsUint32 v = 0"

record ObjectFlags =
  noExtend :: bool
  sealed :: bool
  frozen :: bool
  indexedStorage :: bool
  fastIndexProperties :: bool
  hostObject :: bool
  lazyObject :: bool
  objectID :: nat

text \<open>
  \<^verbatim>\<open>DefinePropertyFlags\<close>: for each attribute a \<open>set\<close> bit (the attribute is mentioned)
  and its value.
\<close>

record DefinePropertyFlags =
  setEnumerable :: bool
  enumerable :: bool
  setWritable :: bool
  writable :: bool
  setConfigurable :: bool
  configurable :: bool
  setGetter :: bool
  setSetter :: bool
  setValue :: bool
  enableInternalSetter :: bool

record PropOpFlags =
  throwOnError :: bool
  mustExist :: bool
  internalForce :: bool

record PropertyFlags =
  enumerable :: bool
  writable :: bool
  configurable :: bool
  accessor :: bool
  internalSetter :: bool
  hostObject :: bool
  staticBuiltin :: bool
  indexed :: bool

text \<open>\<^verbatim>\<open>PropertyFlags{}\<close>: every bit clear.\<close>

definition noPropertyFlags :: PropertyFlags where
  "noPropertyFlags =
     \<lparr>PropertyFlags.enumerable = False, writable = False, configurable = False, accessor = False,
      internalSetter = False, hostObject = False, staticBuiltin = False, indexed = False\<rparr>"

text \<open>
  Modelled from the spec: the two queries of \<^verbatim>\<open>DefinePropertyFlags\<close> (section 3):
  empty when no bit is set, an accessor descriptor when a getter or a setter is mentioned.
\<close>

definition isEmpty :: "DefinePropertyFlags \<Rightarrow> bool" where
  "isEmpty dpf =
     (\<not> setEnumerable dpf \<and> \<not> DefinePropertyFlags.enumerable dpf \<and>
      \<not> setWritable dpf \<and> \<not> DefinePropertyFlags.writable dpf \<and>
      \<not> setConfigurable dpf \<and> \<not> DefinePropertyFlags.configurable dpf \<and>
      \<not> setGetter dpf \<and> \<not> setSetter dpf \<and> \<not> setValue dpf \<and> \<not> enableInternalSetter dpf)"

definition isAccessor :: "DefinePropertyFlags \<Rightarrow> bool" where
  "isAccessor dpf = (setGetter dpf \<or> setSetter dpf)"


record NamedPropertyDescriptor =
  slot :: SlotIndex
  flags :: PropertyFlags

text \<open>A descriptor as its declaration \<^verbatim>\<open>NamedPropertyDescriptor desc;\<close> leaves it.\<close>

definition freshDescriptor :: NamedPropertyDescriptor where
  "freshDescriptor = \<lparr>slot = 0, flags = noPropertyFlags\<rparr>"

subsection \<open>Cells\<close>

text \<open>
  Modelled from the spec: the indexed-storage virtual interface (section 4.6). The
  subclasses that override it are not part of this file; what they own is modelled as a
  range and a partial map from index to the element's flags and value.
\<close>

record IndexedStorage =
  ownIndexedRange :: "32 word \<times> 32 word"
  ownIndexed :: "32 word \<Rightarrow> (PropertyFlags \<times> HermesValue) option"

text \<open>
  Modelled from the spec: the indirect slot vector \<^verbatim>\<open>PropStorage\<close> (section 6): a
  growable array with a capacity.
\<close>

record PropStorage =
  capacity :: nat
  elems :: "HermesValue list"

datatype CellKind = ObjectKind | ArrayKind | FunctionKind | HostObjectKind

record JSObject =
  kind :: CellKind
  parent :: "addr option"
  clazz :: addr
  directProps :: "HermesValue list"
  propStorage :: "PropStorage option"
  oflags :: ObjectFlags
  indexedImpl :: "IndexedStorage option"

text \<open>
  Modelled from the spec: the hidden class (section 3), a map from symbol to slot and
  flags that reports its entries in insertion order, with the number of slots it has
  handed out, its dictionary mode, whether it carries index-like names, and the for-in
  cache it owns (a pointer to a big-storage array).
\<close>

record HiddenClass =
  propertyMap :: "(SymbolID \<times> NamedPropertyDescriptor) list"
  numProperties :: nat
  isDictionary :: bool
  hasIndexLikeProperties :: bool
  forInCache :: "addr option"

record PropertyAccessor =
  getter :: "addr option"
  setter :: "addr option"

text \<open>
  The runtime: the stores, the next free address of the allocator, the object prototype
  and the registry of root classes keyed by prototype.
\<close>

record Runtime =
  objects :: "addr \<Rightarrow> JSObject"
  classes :: "addr \<Rightarrow> HiddenClass"
  accessors :: "addr \<Rightarrow> PropertyAccessor"
  bigStorages :: "addr \<Rightarrow> HermesValue list"
  nextCell :: addr
  objectPrototypeRawPtr :: "addr option"
  getHiddenClassForPrototypeRaw :: "addr option \<Rightarrow> addr"

text \<open>
  The model is that of the build with assertions (\<^verbatim>\<open>NDEBUG\<close> not defined), the build
  in which every \<^verbatim>\<open>assert\<close> of the source is checked: \<open>AssertionFailure\<close> is the
  outcome of a call that breaks an \<^verbatim>\<open>assert\<close>, a checked cast or an
  \<^verbatim>\<open>llvm_unreachable\<close>. The branches under \<^verbatim>\<open>#ifdef NDEBUG\<close> (the experiment switch
  \<^verbatim>\<open>FreezeBuiltinsAndFatalOnOverride\<close> and its \<^verbatim>\<open>hermes_fatal\<close>) do not exist in this
  build and are not modelled.
\<close>

datatype error = TypeError | ReferenceError | AssertionFailure

definition updObject :: "Runtime \<Rightarrow> addr \<Rightarrow> (JSObject \<Rightarrow> JSObject) \<Rightarrow> Runtime" where
  "updObject rt self f = rt\<lparr>objects := (objects rt)(self := f (objects rt self))\<rparr>"

definition updObjectFlags :: "Runtime \<Rightarrow> addr \<Rightarrow> (ObjectFlags \<Rightarrow> ObjectFlags) \<Rightarrow> Runtime" where
  "updObjectFlags rt self f = updObject rt self (\<lambda>obj. obj\<lparr>oflags := f (oflags obj)\<rparr>)"

text \<open>Modelled from the spec: \<^verbatim>\<open>isExtensible\<close> (declared in JSObject.h) is the negation of \<open>noExtend\<close>.\<close>

definition isExtensible :: "JSObject \<Rightarrow> bool" where
  "isExtensible obj = (\<not> noExtend (oflags obj))"

text \<open>
  The collaborators the core calls out to and whose code is elsewhere: the lazy
  initialiser of functions, calls of getters and setters, the host-object callbacks,
  the setter of an array's \<open>length\<close>, and the predicate that marks an object cacheable
  for for-in. Each takes the heap and returns the new one.
\<close>

record Env =
  defineLazyProperties :: "addr \<Rightarrow> Runtime \<Rightarrow> Runtime"
  executeCall0 :: "addr \<Rightarrow> addr \<Rightarrow> Runtime \<Rightarrow> (error + HermesValue) \<times> Runtime"
  executeCall1 :: "addr \<Rightarrow> addr \<Rightarrow> HermesValue \<Rightarrow> Runtime \<Rightarrow> (error + HermesValue) \<times> Runtime"
  hostGet :: "addr \<Rightarrow> SymbolID \<Rightarrow> Runtime \<Rightarrow> (error + HermesValue) \<times> Runtime"
  hostSet :: "addr \<Rightarrow> SymbolID \<Rightarrow> HermesValue \<Rightarrow> Runtime \<Rightarrow> (error + bool) \<times> Runtime"
  getHostPropertyNames :: "addr \<Rightarrow> Runtime \<Rightarrow> (error + SymbolID list) \<times> Runtime"
  arraySetLength :: "addr \<Rightarrow> HermesValue \<Rightarrow> PropOpFlags \<Rightarrow> Runtime \<Rightarrow> (error + bool) \<times> Runtime"
  shouldCacheForIn :: "Runtime \<Rightarrow> addr \<Rightarrow> bool"

subsection \<open>setParent\<close>

text \<open>
  The cycle check of \<^verbatim>\<open>JSObject::setParent\<close>:
  \<^verbatim>\<open>for (auto *cur = parent; cur; cur = cur->parent_) if (cur == self) raise\<close>.
  The loop follows parent pointers of the heap and need not end, so it is a partial
  function: \<open>None\<close> is the loop that never returns.
\<close>

partial_function (option) prototypeCycle :: "Runtime \<Rightarrow> addr \<Rightarrow> addr option \<Rightarrow> bool option" where
  "prototypeCycle rt self cur =
     (case cur of
        None \<Rightarrow> Some False
      | Some c \<Rightarrow> if c = self then Some True else prototypeCycle rt self (parent (objects rt c)))"

definition setParent :: "Runtime \<Rightarrow> addr \<Rightarrow> addr option \<Rightarrow> ((error + unit) \<times> Runtime) option" where
  "setParent rt self newParent =
     (if parent (objects rt self) = newParent then Some (Inr (), rt)
      else if \<not> isExtensible (objects rt self) then Some (Inl TypeError, rt)
      else (case prototypeCycle rt self newParent of
              None \<Rightarrow> None
            | Some True \<Rightarrow> Some (Inl TypeError, rt)
            | Some False \<Rightarrow> Some (Inr (), updObject rt self (\<lambda>obj. obj\<lparr>parent := newParent\<rparr>))))"

text \<open>
  Invariant 8 of the data model (no prototype cycle), as a bounded walk: from \<open>cur\<close> the
  parent pointers reach null within \<open>n\<close> steps. \<open>protoChain\<close> lists the objects met.
\<close>

fun chainEnds :: "Runtime \<Rightarrow> nat \<Rightarrow> addr option \<Rightarrow> bool" where
  "chainEnds rt n None = True"
| "chainEnds rt 0 (Some a) = False"
| "chainEnds rt (Suc n) (Some a) = chainEnds rt n (parent (objects rt a))"

fun protoChain :: "Runtime \<Rightarrow> nat \<Rightarrow> addr option \<Rightarrow> addr list" where
  "protoChain rt n None = []"
| "protoChain rt 0 (Some a) = []"
| "protoChain rt (Suc n) (Some a) = a # protoChain rt n (parent (objects rt a))"

subsection \<open>Array indices\<close>

text \<open>
  Modelled from the spec: \<^verbatim>\<open>toArrayIndex\<close>. A name parses as a uint32 array index
  when it is the decimal spelling, without a leading zero (but for \<open>0\<close> itself), of a
  number below \<open>2^32 - 1\<close>.
\<close>

definition digitOf :: "char \<Rightarrow> nat option" where
  "digitOf ch =
     (let c = (of_char ch :: nat) in if 48 \<le> c \<and> c \<le> 57 then Some (c - 48) else None)"

fun toArrayIndexLoop :: "nat \<Rightarrow> string \<Rightarrow> nat option" where
  "toArrayIndexLoop res [] = Some res"
| "toArrayIndexLoop res (ch # rest) =
     (case digitOf ch of
        None \<Rightarrow> None
      | Some d \<Rightarrow> (let tmp = res * 10 + d in if tmp \<ge> 2 ^ 32 then None else toArrayIndexLoop tmp rest))"

definition toArrayIndex :: "string \<Rightarrow> 32 word option" where
  "toArrayIndex str =
     (case str of
        [] \<Rightarrow> None
      | ch # rest \<Rightarrow>
          if ch = CHR ''0'' then (if rest = [] then Some 0 else None)
          else (case toArrayIndexLoop 0 str of
                  None \<Rightarrow> None
                | Some res \<Rightarrow> if res = 2 ^ 32 - 1 then None else Some (word_of_nat res)))"

subsection \<open>The hidden class, as the core uses it\<close>

text \<open>
  Modelled from the spec: the operations of the hidden class (sections 3 and 6).
  Adding, updating or deleting a property returns a new class: the new class is a fresh
  cell of the class store. A position in the class (\<^verbatim>\<open>PropertyPos\<close>) is the symbol of
  the entry. A new property takes the next slot; the class records that it carries an
  index-like name when one is added.
\<close>

definition HiddenClass_findProperty :: "HiddenClass \<Rightarrow> SymbolID \<Rightarrow> NamedPropertyDescriptor option" where
  "HiddenClass_findProperty cls name = map_of (propertyMap cls) name"

definition allocClass :: "Runtime \<Rightarrow> HiddenClass \<Rightarrow> addr \<times> Runtime" where
  "allocClass rt cls =
     (nextCell rt, rt\<lparr>classes := (classes rt)(nextCell rt := cls), nextCell := Suc (nextCell rt)\<rparr>)"

definition addProperty :: "Runtime \<Rightarrow> addr \<Rightarrow> SymbolID \<Rightarrow> PropertyFlags \<Rightarrow> (addr \<times> SlotIndex) \<times> Runtime" where
  "addProperty rt c name fl =
     (let cls = classes rt c;
          newSlot = numProperties cls;
          (newClazz, rt') = allocClass rt
            (cls\<lparr>propertyMap := propertyMap cls @ [(name, \<lparr>slot = newSlot, flags = fl\<rparr>)],
                 numProperties := Suc newSlot,
                 hasIndexLikeProperties :=
                   (hasIndexLikeProperties cls \<or> toArrayIndex (getStringView name) \<noteq> None),
                 forInCache := None\<rparr>)
      in ((newClazz, newSlot), rt'))"

definition mapFlags :: "(PropertyFlags \<Rightarrow> PropertyFlags) \<Rightarrow> HiddenClass \<Rightarrow> HiddenClass" where
  "mapFlags f cls =
     cls\<lparr>propertyMap := map (\<lambda>(k, d). (k, d\<lparr>flags := f (flags d)\<rparr>)) (propertyMap cls),
         forInCache := None\<rparr>"

definition updateProperty :: "Runtime \<Rightarrow> addr \<Rightarrow> SymbolID \<Rightarrow> PropertyFlags \<Rightarrow> addr \<times> Runtime" where
  "updateProperty rt c pos fl =
     (let cls = classes rt c
      in allocClass rt
           (cls\<lparr>propertyMap :=
                  map (\<lambda>(k, d). if k = pos then (k, d\<lparr>flags := fl\<rparr>) else (k, d)) (propertyMap cls),
                forInCache := None\<rparr>))"

definition deleteProperty :: "Runtime \<Rightarrow> addr \<Rightarrow> SymbolID \<Rightarrow> addr \<times> Runtime" where
  "deleteProperty rt c pos =
     (let cls = classes rt c
      in allocClass rt
           (cls\<lparr>propertyMap := filter (\<lambda>(k, d). k \<noteq> pos) (propertyMap cls), forInCache := None\<rparr>))"

definition makeAllNonConfigurable :: "Runtime \<Rightarrow> addr \<Rightarrow> addr \<times> Runtime" where
  "makeAllNonConfigurable rt c =
     allocClass rt (mapFlags (\<lambda>fl. fl\<lparr>configurable := False\<rparr>) (classes rt c))"

definition makeAllReadOnly :: "Runtime \<Rightarrow> addr \<Rightarrow> addr \<times> Runtime" where
  "makeAllReadOnly rt c =
     allocClass rt
       (mapFlags (\<lambda>fl. if accessor fl then fl\<lparr>configurable := False\<rparr>
                        else fl\<lparr>configurable := False, writable := False\<rparr>) (classes rt c))"

definition getClass :: "Runtime \<Rightarrow> addr \<Rightarrow> HiddenClass" where
  "getClass rt self = classes rt (clazz (objects rt self))"

definition findProperty :: "Runtime \<Rightarrow> addr \<Rightarrow> SymbolID \<Rightarrow> NamedPropertyDescriptor option" where
  "findProperty rt self name = HiddenClass_findProperty (getClass rt self) name"

subsection \<open>Slots\<close>

text \<open>
  Modelled from the spec: the slot index convention (section 3). Slots below
  \<open>DIRECT_PROPERTY_SLOTS\<close> are inline, slot \<open>D + k\<close> is element \<open>k\<close> of the indirect
  vector. The source asserts that a slot it reads or writes exists; where it does not,
  the model reads empty and writes nothing.
\<close>

definition DIRECT_PROPERTY_SLOTS :: nat where
  "DIRECT_PROPERTY_SLOTS = 4"

definition DEFAULT_PROPERTY_CAPACITY :: nat where
  "DEFAULT_PROPERTY_CAPACITY = 4"

definition valueAt :: "HermesValue list \<Rightarrow> nat \<Rightarrow> HermesValue" where
  "valueAt xs i = (if i < length xs then xs ! i else EmptyValue)"

definition getNamedSlotValue :: "JSObject \<Rightarrow> NamedPropertyDescriptor \<Rightarrow> HermesValue" where
  "getNamedSlotValue obj desc =
     (if slot desc < DIRECT_PROPERTY_SLOTS then valueAt (directProps obj) (slot desc)
      else (case propStorage obj of
              None \<Rightarrow> EmptyValue
            | Some st \<Rightarrow> valueAt (elems st) (slot desc - DIRECT_PROPERTY_SLOTS)))"

definition setSlot :: "JSObject \<Rightarrow> SlotIndex \<Rightarrow> HermesValue \<Rightarrow> JSObject" where
  "setSlot obj i v =
     (if i < DIRECT_PROPERTY_SLOTS then obj\<lparr>directProps := (directProps obj)[i := v]\<rparr>
      else obj\<lparr>propStorage :=
                 map_option (\<lambda>st. st\<lparr>elems := (elems st)[i - DIRECT_PROPERTY_SLOTS := v]\<rparr>)
                   (propStorage obj)\<rparr>)"

definition setNamedSlotValue :: "Runtime \<Rightarrow> addr \<Rightarrow> NamedPropertyDescriptor \<Rightarrow> HermesValue \<Rightarrow> Runtime" where
  "setNamedSlotValue rt self desc v = updObject rt self (\<lambda>obj. setSlot obj (slot desc) v)"

definition resizeElems :: "HermesValue list \<Rightarrow> nat \<Rightarrow> HermesValue list" where
  "resizeElems xs n = take n xs @ replicate (n - length xs) EmptyValue"

text \<open>
  \<^verbatim>\<open>JSObject::allocateNewSlotStorage\<close>, on the cell of \<open>selfHandle\<close>: an inline slot
  is stored directly; otherwise the indirect vector is created, or reallocated when the
  slot is beyond its capacity, then grown by one within its capacity, and the slot is
  stored.
\<close>

definition allocateNewSlotStorage :: "JSObject \<Rightarrow> SlotIndex \<Rightarrow> HermesValue \<Rightarrow> JSObject" where
  "allocateNewSlotStorage obj newSlotIndex v =
     (if newSlotIndex < DIRECT_PROPERTY_SLOTS
      then obj\<lparr>directProps := (directProps obj)[newSlotIndex := v]\<rparr>
      else
        (let k = newSlotIndex - DIRECT_PROPERTY_SLOTS;
             st1 = (case propStorage obj of
                      None \<Rightarrow> \<lparr>capacity = DEFAULT_PROPERTY_CAPACITY, elems = []\<rparr>
                    | Some st \<Rightarrow>
                        if k \<ge> capacity st
                        then \<lparr>capacity = Suc k, elems = resizeElems (elems st) (Suc k)\<rparr>
                        else st);
             st2 = (if k \<ge> length (elems st1) then st1\<lparr>elems := resizeElems (elems st1) (Suc k)\<rparr>
                    else st1)
         in obj\<lparr>propStorage := Some (st2\<lparr>elems := (elems st2)[k := v]\<rparr>)\<rparr>))"

subsection \<open>Creating objects\<close>

text \<open>
  Modelled from the spec: the flags of a new object (section 3). A new object is
  extensible and has no index-like named property, so its fast-index flag is set.
\<close>

definition emptyObjectFlags :: ObjectFlags where
  "emptyObjectFlags =
     \<lparr>noExtend = False, sealed = False, frozen = False, indexedStorage = False,
      fastIndexProperties = True, hostObject = False, lazyObject = False, objectID = 0\<rparr>"






subsection \<open>Lazy objects\<close>

text \<open>
  \<^verbatim>\<open>JSObject::initializeLazyObject\<close>: the flag is cleared, then the function's lazy
  properties are defined by the collaborator.
\<close>

definition initializeLazyObject :: "Env \<Rightarrow> Runtime \<Rightarrow> addr \<Rightarrow> Runtime" where
  "initializeLazyObject env rt lazyObj =
     defineLazyProperties env lazyObj (updObjectFlags rt lazyObj (\<lambda>fl. fl\<lparr>lazyObject := False\<rparr>))"

subsection \<open>The update rule of defineOwnProperty\<close>

datatype PropertyUpdateStatus = StatusFailed | StatusDone | StatusNeedSet

text \<open>Modelled from the spec: \<^verbatim>\<open>isSameValue\<close> (glossary); on \<open>HermesValue\<close> it is equality.\<close>

definition isSameValue :: "HermesValue \<Rightarrow> HermesValue \<Rightarrow> bool" where
  "isSameValue x y = (x = y)"

text \<open>\<^verbatim>\<open>vmcast<PropertyAccessor>\<close>: the value must be a pointer.\<close>

fun vmcastPropertyAccessor :: "HermesValue \<Rightarrow> addr option" where
  "vmcastPropertyAccessor (ObjectValue a) = Some a"
| "vmcastPropertyAccessor v = None"

fun isPointer :: "HermesValue \<Rightarrow> bool" where
  "isPointer (ObjectValue a) = True"
| "isPointer v = False"

definition updAccessor :: "Runtime \<Rightarrow> addr \<Rightarrow> (PropertyAccessor \<Rightarrow> PropertyAccessor) \<Rightarrow> Runtime" where
  "updAccessor rt a f = rt\<lparr>accessors := (accessors rt)(a := f (accessors rt a))\<rparr>"

text \<open>
  The rejection of an update: \<^verbatim>\<open>raiseTypeError\<close> under \<open>throwOnError\<close>, else the pair
  \<^verbatim>\<open>(failed, PropertyFlags{})\<close>.
\<close>

definition updateFailed ::
  "Runtime \<Rightarrow> PropOpFlags \<Rightarrow> (error + PropertyUpdateStatus \<times> PropertyFlags) \<times> Runtime" where
  "updateFailed rt opFlags =
     (if throwOnError opFlags then (Inl TypeError, rt) else (Inr (StatusFailed, noPropertyFlags), rt))"

text \<open>
  8.12.9 [6] in \<^verbatim>\<open>checkPropertyUpdate\<close>: every mentioned attribute equals the current
  one, and the mentioned accessor halves or the value are the same. \<open>None\<close> is a failed
  cast.
\<close>

definition unchangedByUpdate ::
  "Runtime \<Rightarrow> PropertyFlags \<Rightarrow> DefinePropertyFlags \<Rightarrow> HermesValue \<Rightarrow> HermesValue \<Rightarrow> bool option" where
  "unchangedByUpdate rt currentFlags dpFlags curValueOrAccessor valueOrAccessor =
     (if (\<not> setEnumerable dpFlags \<or> DefinePropertyFlags.enumerable dpFlags = enumerable currentFlags) \<and>
         (\<not> setWritable dpFlags \<or> DefinePropertyFlags.writable dpFlags = writable currentFlags) \<and>
         (\<not> setConfigurable dpFlags \<or>
            DefinePropertyFlags.configurable dpFlags = configurable currentFlags)
      then
        (if isAccessor dpFlags then
           (if accessor currentFlags then
              (case (vmcastPropertyAccessor curValueOrAccessor, vmcastPropertyAccessor valueOrAccessor) of
                 (Some ca, Some na) \<Rightarrow>
                   Some ((\<not> setGetter dpFlags \<or> getter (accessors rt ca) = getter (accessors rt na)) \<and>
                         (\<not> setSetter dpFlags \<or> setter (accessors rt ca) = setter (accessors rt na)))
               | _ \<Rightarrow> None)
            else Some False)
         else if setValue dpFlags then Some (isSameValue curValueOrAccessor valueOrAccessor)
         else Some True)
      else Some False)"

text \<open>8.12.9 [12]: the mentioned attributes are written, and the status says whether a slot write follows.\<close>

definition finishUpdate :: "PropertyFlags \<Rightarrow> DefinePropertyFlags \<Rightarrow> PropertyUpdateStatus \<times> PropertyFlags" where
  "finishUpdate newFlags dpFlags =
     (let f1 = (if setEnumerable dpFlags
                then newFlags\<lparr>PropertyFlags.enumerable := DefinePropertyFlags.enumerable dpFlags\<rparr>
                else newFlags);
          f2 = (if setWritable dpFlags
                then f1\<lparr>PropertyFlags.writable := DefinePropertyFlags.writable dpFlags\<rparr> else f1);
          f3 = (if setConfigurable dpFlags
                then f2\<lparr>PropertyFlags.configurable := DefinePropertyFlags.configurable dpFlags\<rparr>
                else f2)
      in if setValue dpFlags then (StatusNeedSet, f3\<lparr>accessor := False\<rparr>)
         else if isAccessor dpFlags then (StatusNeedSet, f3\<lparr>accessor := True\<rparr>)
         else (StatusDone, f3))"

text \<open>
  \<^verbatim>\<open>JSObject::checkPropertyUpdate\<close>. In the branch of two accessors the supplied cell
  (\<open>newAccessor\<close>) is written: a half that is not mentioned is copied into it from the
  current cell.
\<close>

definition checkPropertyUpdate ::
  "Runtime \<Rightarrow> PropertyFlags \<Rightarrow> DefinePropertyFlags \<Rightarrow> HermesValue \<Rightarrow> HermesValue \<Rightarrow> PropOpFlags
     \<Rightarrow> (error + PropertyUpdateStatus \<times> PropertyFlags) \<times> Runtime" where
  "checkPropertyUpdate rt currentFlags dpFlags curValueOrAccessor valueOrAccessor opFlags =
     (if isEmpty dpFlags then (Inr (StatusDone, currentFlags), rt)
      else if (isAccessor dpFlags \<and> (setWritable dpFlags \<or> DefinePropertyFlags.writable dpFlags)) \<or>
              enableInternalSetter dpFlags
      then (Inl AssertionFailure, rt)
      else
        (case unchangedByUpdate rt currentFlags dpFlags curValueOrAccessor valueOrAccessor of
           None \<Rightarrow> (Inl AssertionFailure, rt)
         | Some True \<Rightarrow> (Inr (StatusDone, currentFlags), rt)
         | Some False \<Rightarrow>
             if \<not> configurable currentFlags \<and> DefinePropertyFlags.configurable dpFlags
             then updateFailed rt opFlags
             else if \<not> configurable currentFlags \<and> setEnumerable dpFlags \<and>
                     DefinePropertyFlags.enumerable dpFlags \<noteq> enumerable currentFlags
             then updateFailed rt opFlags
             else if \<not> (setValue dpFlags \<or> setWritable dpFlags \<or> setGetter dpFlags \<or> setSetter dpFlags)
             then (Inr (finishUpdate currentFlags dpFlags), rt)
             else if accessor currentFlags \<noteq> isAccessor dpFlags
             then (if \<not> configurable currentFlags then updateFailed rt opFlags
                   else (Inr (finishUpdate (currentFlags\<lparr>writable := False\<rparr>) dpFlags), rt))
             else if \<not> accessor currentFlags
             then (if \<not> configurable currentFlags \<and> \<not> writable currentFlags \<and>
                      DefinePropertyFlags.writable dpFlags
                   then updateFailed rt opFlags
                   else if \<not> configurable currentFlags \<and> \<not> writable currentFlags \<and>
                           setValue dpFlags \<and> \<not> isSameValue curValueOrAccessor valueOrAccessor
                   then updateFailed rt opFlags
                   else (Inr (finishUpdate currentFlags dpFlags), rt))
             else
               (case (vmcastPropertyAccessor curValueOrAccessor, vmcastPropertyAccessor valueOrAccessor) of
                  (Some curAccessor, Some newAccessor) \<Rightarrow>
                    if \<not> configurable currentFlags \<and>
                       ((setGetter dpFlags \<and>
                           getter (accessors rt newAccessor) \<noteq> getter (accessors rt curAccessor)) \<or>
                        (setSetter dpFlags \<and>
                           setter (accessors rt newAccessor) \<noteq> setter (accessors rt curAccessor)))
                    then updateFailed rt opFlags
                    else
                      (let rt1 = (if \<not> setGetter dpFlags
                                  then updAccessor rt newAccessor
                                         (\<lambda>acc. acc\<lparr>getter := getter (accessors rt curAccessor)\<rparr>)
                                  else rt);
                           rt2 = (if \<not> setSetter dpFlags
                                  then updAccessor rt1 newAccessor
                                         (\<lambda>acc. acc\<lparr>setter := setter (accessors rt1 curAccessor)\<rparr>)
                                  else rt1)
                       in (Inr (finishUpdate currentFlags dpFlags), rt2))
                | _ \<Rightarrow> (Inl AssertionFailure, rt))))"

subsection \<open>Adding and updating an own property\<close>

text \<open>
  \<^verbatim>\<open>JSObject::addOwnPropertyImpl\<close>: the class gets the property, the object the new
  class, the slot its storage and value, and the fast-index flag is cleared when the
  class now carries index-like names.
\<close>

definition addOwnPropertyImpl :: "Runtime \<Rightarrow> addr \<Rightarrow> SymbolID \<Rightarrow> PropertyFlags \<Rightarrow> HermesValue \<Rightarrow> Runtime" where
  "addOwnPropertyImpl rt self name propertyFlags valueOrAccessor =
     (let ((newClazz, newSlot), rt1) = addProperty rt (clazz (objects rt self)) name propertyFlags;
          rt2 = updObject rt1 self (\<lambda>obj. obj\<lparr>clazz := newClazz\<rparr>);
          rt3 = updObject rt2 self (\<lambda>obj. allocateNewSlotStorage obj newSlot valueOrAccessor)
      in if hasIndexLikeProperties (getClass rt3 self)
         then updObjectFlags rt3 self (\<lambda>fl. fl\<lparr>fastIndexProperties := False\<rparr>)
         else rt3)"

text \<open>The flags \<^verbatim>\<open>JSObject::addOwnProperty\<close> gives the new property.\<close>

definition newPropertyFlags :: "DefinePropertyFlags \<Rightarrow> PropertyFlags" where
  "newPropertyFlags dpFlags0 =
     (let dpFlags = (if isAccessor dpFlags0 then dpFlags0\<lparr>setWritable := False\<rparr> else dpFlags0);
          f0 = noPropertyFlags\<lparr>accessor := isAccessor dpFlags0\<rparr>;
          f1 = (if setEnumerable dpFlags
                then f0\<lparr>PropertyFlags.enumerable := DefinePropertyFlags.enumerable dpFlags\<rparr> else f0);
          f2 = (if setWritable dpFlags
                then f1\<lparr>PropertyFlags.writable := DefinePropertyFlags.writable dpFlags\<rparr> else f1);
          f3 = (if setConfigurable dpFlags
                then f2\<lparr>PropertyFlags.configurable := DefinePropertyFlags.configurable dpFlags\<rparr>
                else f2)
      in f3\<lparr>internalSetter := enableInternalSetter dpFlags\<rparr>)"

definition addOwnProperty ::
  "Runtime \<Rightarrow> addr \<Rightarrow> SymbolID \<Rightarrow> DefinePropertyFlags \<Rightarrow> HermesValue \<Rightarrow> PropOpFlags
     \<Rightarrow> (error + bool) \<times> Runtime" where
  "addOwnProperty rt self name dpFlags valueOrAccessor opFlags =
     (if \<not> isExtensible (objects rt self) \<and> \<not> internalForce opFlags
      then (if throwOnError opFlags then (Inl TypeError, rt) else (Inr False, rt))
      else (Inr True, addOwnPropertyImpl rt self name (newPropertyFlags dpFlags) valueOrAccessor))"


text \<open>
  \<^verbatim>\<open>JSObject::internalSetter\<close>: only the \<open>length\<close> of an array has one; anything else is
  \<^verbatim>\<open>llvm_unreachable\<close>.
\<close>

definition internalSetterCall ::
  "Env \<Rightarrow> Runtime \<Rightarrow> addr \<Rightarrow> SymbolID \<Rightarrow> HermesValue \<Rightarrow> PropOpFlags \<Rightarrow> (error + bool) \<times> Runtime" where
  "internalSetterCall env rt self name v opFlags =
     (if kind (objects rt self) = ArrayKind \<and> name = Identifier ''length''
      then arraySetLength env self v opFlags rt
      else (Inl AssertionFailure, rt))"

text \<open>
  The step of \<^verbatim>\<open>JSObject::updateOwnProperty\<close> after the check: if the property flags
  changed, the class is asked for the update and the object gets the new class.
\<close>

definition installFlags ::
  "Runtime \<Rightarrow> addr \<Rightarrow> SymbolID \<Rightarrow> NamedPropertyDescriptor \<Rightarrow> PropertyFlags
     \<Rightarrow> NamedPropertyDescriptor \<times> Runtime" where
  "installFlags rt self propertyPos desc newFlags =
     (if newFlags \<noteq> flags desc
      then (let (newClazz, rt') = updateProperty rt (clazz (objects rt self)) propertyPos newFlags
            in (desc\<lparr>flags := newFlags\<rparr>, updObject rt' self (\<lambda>obj. obj\<lparr>clazz := newClazz\<rparr>)))
      else (desc, rt))"

definition updateOwnProperty ::
  "Env \<Rightarrow> Runtime \<Rightarrow> addr \<Rightarrow> SymbolID \<Rightarrow> SymbolID \<Rightarrow> NamedPropertyDescriptor \<Rightarrow> DefinePropertyFlags
     \<Rightarrow> HermesValue \<Rightarrow> PropOpFlags \<Rightarrow> (error + bool) \<times> Runtime" where
  "updateOwnProperty env rt self name propertyPos desc dpFlags valueOrAccessor opFlags =
     (case checkPropertyUpdate rt (flags desc) dpFlags
             (getNamedSlotValue (objects rt self) desc) valueOrAccessor opFlags of
        (Inl e, rt1) \<Rightarrow> (Inl e, rt1)
      | (Inr (status, newFlags), rt1) \<Rightarrow>
          if status = StatusFailed then (Inr False, rt1)
          else
            (let (desc', rt2) = installFlags rt1 self propertyPos desc newFlags
             in if status = StatusDone then (Inr True, rt2)
                else if setValue dpFlags
                then (if \<not> internalSetter (flags desc')
                      then (Inr True, setNamedSlotValue rt2 self desc' valueOrAccessor)
                      else internalSetterCall env rt2 self name valueOrAccessor opFlags)
                else if isAccessor dpFlags
                then (Inr True, setNamedSlotValue rt2 self desc' valueOrAccessor)
                else (Inr True, rt2)))"

text \<open>
  \<^verbatim>\<open>JSObject::defineOwnProperty\<close>. Its assertions on the arguments come first. When the
  name is not found on a lazy object, the object is initialised and the call starts
  again.
\<close>

partial_function (option) defineOwnProperty ::
  "Env \<Rightarrow> Runtime \<Rightarrow> addr \<Rightarrow> SymbolID \<Rightarrow> DefinePropertyFlags \<Rightarrow> HermesValue \<Rightarrow> PropOpFlags
     \<Rightarrow> ((error + bool) \<times> Runtime) option" where
  "defineOwnProperty env rt self name dpFlags valueOrAccessor opFlags =
     (if mustExist opFlags \<or> (setValue dpFlags \<and> isAccessor dpFlags) \<or>
         \<not> (setValue dpFlags \<or> isAccessor dpFlags \<or> valueOrAccessor = UndefinedValue) \<or>
         (isAccessor dpFlags \<and>
            (\<not> isPointer valueOrAccessor \<or> setWritable dpFlags \<or> DefinePropertyFlags.writable dpFlags))
      then Some (Inl AssertionFailure, rt)
      else
        (case findProperty rt self name of
           Some desc \<Rightarrow>
             Some (updateOwnProperty env rt self name name desc dpFlags valueOrAccessor opFlags)
         | None \<Rightarrow>
             if lazyObject (oflags (objects rt self))
             then defineOwnProperty env (initializeLazyObject env rt self) self name dpFlags
                    valueOrAccessor opFlags
             else Some (addOwnProperty rt self name dpFlags valueOrAccessor opFlags)))"

subsection \<open>Descriptors of a defineOwnProperty call\<close>

text \<open>The descriptor \<^verbatim>\<open>{value: w}\<close>: only the value is mentioned.\<close>

definition valueOnly :: DefinePropertyFlags where
  "valueOnly =
     \<lparr>setEnumerable = False, enumerable = False, setWritable = False, writable = False,
      setConfigurable = False, configurable = False, setGetter = False, setSetter = False,
      setValue = True, enableInternalSetter = False\<rparr>"

text \<open>
  The arguments that pass the assertions of \<^verbatim>\<open>defineOwnProperty\<close> and
  \<^verbatim>\<open>checkPropertyUpdate\<close>: not both a value and an accessor, an undefined value when
  neither is mentioned, an accessor that is a pointer and mentions no writable bit, and
  no internal setter.
\<close>

definition validDescriptor :: "DefinePropertyFlags \<Rightarrow> HermesValue \<Rightarrow> bool" where
  "validDescriptor dpFlags v =
     (\<not> (setValue dpFlags \<and> isAccessor dpFlags) \<and>
      (setValue dpFlags \<or> isAccessor dpFlags \<or> v = UndefinedValue) \<and>
      (isAccessor dpFlags \<longrightarrow>
         isPointer v \<and> \<not> setWritable dpFlags \<and> \<not> DefinePropertyFlags.writable dpFlags) \<and>
      \<not> enableInternalSetter dpFlags)"

text \<open>
  The requests that \<^verbatim>\<open>checkPropertyUpdate\<close> rejects on a non-configurable property,
  read off its branches [7], [9] and [10]: configurable set to true, enumerable changed,
  a data property given a getter or setter, an accessor property given a value that is
  not the stored cell, and writable set to true on a property whose writable bit is
  clear. This is the set of the code, not the list of section 4.5: a data descriptor
  that mentions only \<open>writable = false\<close> on an accessor property is not in it (see C2).
\<close>

definition rejectedChange :: "PropertyFlags \<Rightarrow> DefinePropertyFlags \<Rightarrow> HermesValue \<Rightarrow> HermesValue \<Rightarrow> bool" where
  "rejectedChange currentFlags dpFlags cur v =
     ((setConfigurable dpFlags \<and> DefinePropertyFlags.configurable dpFlags) \<or>
      (setEnumerable dpFlags \<and> DefinePropertyFlags.enumerable dpFlags \<noteq> enumerable currentFlags) \<or>
      (\<not> accessor currentFlags \<and> isAccessor dpFlags) \<or>
      (accessor currentFlags \<and> setValue dpFlags \<and> \<not> isSameValue cur v) \<or>
      (\<not> writable currentFlags \<and> setWritable dpFlags \<and> DefinePropertyFlags.writable dpFlags))"

text \<open>
  The test of branch [9] of \<^verbatim>\<open>checkPropertyUpdate\<close> (the \<^verbatim>\<open>else if\<close> after [8]): the
  descriptor mentions a value, writable, a getter or a setter, and it is an accessor
  descriptor where the property is a data property, or the other way round.
\<close>

definition changesKind :: "PropertyFlags \<Rightarrow> DefinePropertyFlags \<Rightarrow> bool" where
  "changesKind currentFlags dpFlags =
     ((setValue dpFlags \<or> setWritable dpFlags \<or> setGetter dpFlags \<or> setSetter dpFlags) \<and>
      accessor currentFlags \<noteq> isAccessor dpFlags)"

text \<open>
  The accessor of an own accessor property: the cell its slot points to, and the cell's
  two halves.
\<close>

definition getOwnAccessor :: "Runtime \<Rightarrow> addr \<Rightarrow> SymbolID \<Rightarrow> (addr \<times> PropertyAccessor) option" where
  "getOwnAccessor rt self name =
     (case findProperty rt self name of
        None \<Rightarrow> None
      | Some desc \<Rightarrow>
          if accessor (flags desc)
          then map_option (\<lambda>a. (a, accessors rt a))
                 (vmcastPropertyAccessor (getNamedSlotValue (objects rt self) desc))
          else None)"

text \<open>
  The merge of section 4.5, rule 6: a mentioned half comes from the supplied cell, a half
  that is not mentioned from the current cell.
\<close>

definition mergedAccessor :: "Runtime \<Rightarrow> DefinePropertyFlags \<Rightarrow> addr \<Rightarrow> addr \<Rightarrow> PropertyAccessor" where
  "mergedAccessor rt dpFlags curAccessor newAccessor =
     \<lparr>getter = (if setGetter dpFlags then getter (accessors rt newAccessor)
                else getter (accessors rt curAccessor)),
      setter = (if setSetter dpFlags then setter (accessors rt newAccessor)
                else setter (accessors rt curAccessor))\<rparr>"

subsection \<open>Descriptor resolution along the prototype chain\<close>

text \<open>The descriptor a host object synthesises: \<open>hostObject\<close> and \<open>writable\<close> on a fresh descriptor.\<close>

definition hostDescriptor :: NamedPropertyDescriptor where
  "hostDescriptor = freshDescriptor\<lparr>flags := noPropertyFlags\<lparr>hostObject := True, writable := True\<rparr>\<rparr>"

text \<open>
  The \<^verbatim>\<open>do ... while\<close> loop of \<^verbatim>\<open>JSObject::getNamedDescriptor\<close> over the prototypes:
  an object that is neither lazy nor a host object is looked up; a lazy one is
  initialised and then looked up; a host object answers for every name. The loop
  follows parent pointers, so it is a partial function.
\<close>

partial_function (option) getNamedDescriptorLoop ::
  "Env \<Rightarrow> Runtime \<Rightarrow> addr \<Rightarrow> SymbolID \<Rightarrow> ((addr \<times> NamedPropertyDescriptor) option \<times> Runtime) option" where
  "getNamedDescriptorLoop env rt cur name =
     (if \<not> lazyObject (oflags (objects rt cur)) \<and> \<not> ObjectFlags.hostObject (oflags (objects rt cur))
      then (case findProperty rt cur name of
              Some desc \<Rightarrow> Some (Some (cur, desc), rt)
            | None \<Rightarrow> (case parent (objects rt cur) of
                         None \<Rightarrow> Some (None, rt)
                       | Some p \<Rightarrow> getNamedDescriptorLoop env rt p name))
      else if lazyObject (oflags (objects rt cur))
      then (let rt' = initializeLazyObject env rt cur
            in case findProperty rt' cur name of
                 Some desc \<Rightarrow> Some (Some (cur, desc), rt')
               | None \<Rightarrow> (case parent (objects rt' cur) of
                            None \<Rightarrow> Some (None, rt')
                          | Some p \<Rightarrow> getNamedDescriptorLoop env rt' p name))
      else Some (Some (cur, hostDescriptor), rt))"

definition getNamedDescriptor ::
  "Env \<Rightarrow> Runtime \<Rightarrow> addr \<Rightarrow> SymbolID \<Rightarrow> ((addr \<times> NamedPropertyDescriptor) option \<times> Runtime) option" where
  "getNamedDescriptor env rt self name =
     (case findProperty rt self name of
        Some desc \<Rightarrow> Some (Some (self, desc), rt)
      | None \<Rightarrow>
          if ObjectFlags.hostObject (oflags (objects rt self)) then Some (Some (self, hostDescriptor), rt)
          else
            (let (found, rt1) =
                   (if lazyObject (oflags (objects rt self))
                    then (let rt' = initializeLazyObject env rt self in (findProperty rt' self name, rt'))
                    else (None, rt))
             in case found of
                  Some desc \<Rightarrow> Some (Some (self, desc), rt1)
                | None \<Rightarrow> (case parent (objects rt1 self) of
                             None \<Rightarrow> Some (None, rt1)
                           | Some p \<Rightarrow> getNamedDescriptorLoop env rt1 p name)))"

subsection \<open>Get and put of a named property\<close>

text \<open>
  \<^verbatim>\<open>JSObject::getNamed_RJS\<close>. The result is the value (or the exception), the cache
  entry stamped when the caller supplied a sink (\<open>cacheEntry\<close>), and the heap.
\<close>

definition getNamed_RJS ::
  "Env \<Rightarrow> Runtime \<Rightarrow> addr \<Rightarrow> SymbolID \<Rightarrow> PropOpFlags \<Rightarrow> bool
     \<Rightarrow> ((error + HermesValue) \<times> (addr \<times> SlotIndex) option \<times> Runtime) option" where
  "getNamed_RJS env rt self name opFlags cacheEntry =
     (case getNamedDescriptor env rt self name of
        None \<Rightarrow> None
      | Some (None, rt1) \<Rightarrow>
          Some (if mustExist opFlags then Inl ReferenceError else Inr UndefinedValue, None, rt1)
      | Some (Some (propObj, desc), rt1) \<Rightarrow>
          if \<not> accessor (flags desc) \<and> \<not> hostObject (flags desc)
          then Some (Inr (getNamedSlotValue (objects rt1 propObj) desc),
                     (if cacheEntry \<and> \<not> isDictionary (getClass rt1 propObj)
                      then Some (clazz (objects rt1 propObj), slot desc) else None),
                     rt1)
          else if accessor (flags desc)
          then (case vmcastPropertyAccessor (getNamedSlotValue (objects rt1 propObj) desc) of
                  None \<Rightarrow> Some (Inl AssertionFailure, None, rt1)
                | Some a \<Rightarrow>
                    (case getter (accessors rt1 a) of
                       None \<Rightarrow> Some (Inr UndefinedValue, None, rt1)
                     | Some g \<Rightarrow> (let (r, rt2) = executeCall0 env g self rt1 in Some (r, None, rt2))))
          else (let (r, rt2) = hostGet env propObj name rt1 in Some (r, None, rt2)))"



subsection \<open>Delete\<close>

text \<open>
  \<^verbatim>\<open>JSObject::deleteNamed\<close>. A name that is not found on a lazy object is looked up
  again after the object is initialised.
\<close>

definition deleteNamed ::
  "Env \<Rightarrow> Runtime \<Rightarrow> addr \<Rightarrow> SymbolID \<Rightarrow> PropOpFlags \<Rightarrow> (error + bool) \<times> Runtime" where
  "deleteNamed env rt self name opFlags =
     (if mustExist opFlags then (Inl AssertionFailure, rt)
      else
        (let (pos, rt1) =
               (case findProperty rt self name of
                  Some desc \<Rightarrow> (Some desc, rt)
                | None \<Rightarrow>
                    if lazyObject (oflags (objects rt self))
                    then (let rt' = initializeLazyObject env rt self in (findProperty rt' self name, rt'))
                    else (None, rt))
         in case pos of
              None \<Rightarrow> (Inr True, rt1)
            | Some desc \<Rightarrow>
                if \<not> configurable (flags desc)
                then (if throwOnError opFlags then (Inl TypeError, rt1) else (Inr False, rt1))
                else
                  (let rt2 = setNamedSlotValue rt1 self desc EmptyValue;
                       (newClazz, rt3) = deleteProperty rt2 (clazz (objects rt2 self)) name
                   in (Inr True, updObject rt3 self (\<lambda>obj. obj\<lparr>clazz := newClazz\<rparr>)))))"

subsection \<open>Extensibility\<close>

definition preventExtensions :: "Runtime \<Rightarrow> addr \<Rightarrow> Runtime" where
  "preventExtensions rt self = updObjectFlags rt self (\<lambda>fl. fl\<lparr>noExtend := True\<rparr>)"

definition seal :: "Runtime \<Rightarrow> addr \<Rightarrow> Runtime" where
  "seal rt self =
     (if sealed (oflags (objects rt self)) then rt
      else
        (let (newClazz, rt1) = makeAllNonConfigurable rt (clazz (objects rt self));
             rt2 = updObject rt1 self (\<lambda>obj. obj\<lparr>clazz := newClazz\<rparr>)
         in updObjectFlags rt2 self (\<lambda>fl. fl\<lparr>sealed := True, noExtend := True\<rparr>)))"

definition freeze :: "Runtime \<Rightarrow> addr \<Rightarrow> Runtime" where
  "freeze rt self =
     (if frozen (oflags (objects rt self)) then rt
      else
        (let (newClazz, rt1) = makeAllReadOnly rt (clazz (objects rt self));
             rt2 = updObject rt1 self (\<lambda>obj. obj\<lparr>clazz := newClazz\<rparr>)
         in updObjectFlags rt2 self (\<lambda>fl. fl\<lparr>frozen := True, sealed := True, noExtend := True\<rparr>)))"

subsection \<open>Predicates of the claims\<close>



subsection \<open>The operations of the core, and the fast-index invariant\<close>







subsection \<open>The indexed-storage interface\<close>

text \<open>
  The virtual functions of the object's vtable. The implementations of \<^verbatim>\<open>JSObject\<close>
  itself (\<^verbatim>\<open>_getOwnIndexedRangeImpl\<close>, \<^verbatim>\<open>_haveOwnIndexedImpl\<close>,
  \<^verbatim>\<open>_getOwnIndexedPropertyFlagsImpl\<close>, \<^verbatim>\<open>_getOwnIndexedImpl\<close>) report an empty range and
  no element; a subclass answers from its indexed storage.
\<close>

definition getOwnIndexedRange :: "JSObject \<Rightarrow> 32 word \<times> 32 word" where
  "getOwnIndexedRange obj = (case indexedImpl obj of None \<Rightarrow> (0, 0) | Some impl \<Rightarrow> ownIndexedRange impl)"

definition haveOwnIndexed :: "JSObject \<Rightarrow> 32 word \<Rightarrow> bool" where
  "haveOwnIndexed obj i = (case indexedImpl obj of None \<Rightarrow> False | Some impl \<Rightarrow> ownIndexed impl i \<noteq> None)"

definition getOwnIndexedPropertyFlags :: "JSObject \<Rightarrow> 32 word \<Rightarrow> PropertyFlags option" where
  "getOwnIndexedPropertyFlags obj i =
     (case indexedImpl obj of None \<Rightarrow> None | Some impl \<Rightarrow> map_option fst (ownIndexed impl i))"

definition getOwnIndexed :: "JSObject \<Rightarrow> 32 word \<Rightarrow> HermesValue" where
  "getOwnIndexed obj i =
     (case indexedImpl obj of
        None \<Rightarrow> EmptyValue
      | Some impl \<Rightarrow> (case ownIndexed impl i of None \<Rightarrow> EmptyValue | Some (fl, v) \<Rightarrow> v))"

subsection \<open>hasNamed and hasNamedOrIndexed\<close>

definition hasNamed :: "Env \<Rightarrow> Runtime \<Rightarrow> addr \<Rightarrow> SymbolID \<Rightarrow> (bool \<times> Runtime) option" where
  "hasNamed env rt self name =
     (case getNamedDescriptor env rt self name of
        None \<Rightarrow> None
      | Some (propObj, rt1) \<Rightarrow> Some (propObj \<noteq> None, rt1))"

definition hasNamedOrIndexed :: "Env \<Rightarrow> Runtime \<Rightarrow> addr \<Rightarrow> SymbolID \<Rightarrow> (bool \<times> Runtime) option" where
  "hasNamedOrIndexed env rt self name =
     (if indexedStorage (oflags (objects rt self))
      then (case toArrayIndex (getStringView name) of
              Some nameAsIndex \<Rightarrow>
                if haveOwnIndexed (objects rt self) nameAsIndex then Some (True, rt)
                else if fastIndexProperties (oflags (objects rt self)) then Some (False, rt)
                else hasNamed env rt self name
            | None \<Rightarrow> hasNamed env rt self name)
      else hasNamed env rt self name)"

text \<open>
  C4 in the words of the spec: an indexed slot \<open>i\<close> exists on the object or on an
  object of its prototype chain, or a named property with the spelling of \<open>i\<close> exists
  on the object or its chain.
\<close>

definition specHasNamedOrIndexed :: "Runtime \<Rightarrow> nat \<Rightarrow> addr \<Rightarrow> SymbolID \<Rightarrow> 32 word \<Rightarrow> bool" where
  "specHasNamedOrIndexed rt n self name i =
     list_ex (\<lambda>a. haveOwnIndexed (objects rt a) i \<or> findProperty rt a name \<noteq> None)
       (protoChain rt n (Some self))"

text \<open>
  What the named walk finds: an object of the chain that has the name in its class, or
  that is a host object.
\<close>

definition namedOrHostOnChain :: "Runtime \<Rightarrow> nat \<Rightarrow> addr \<Rightarrow> SymbolID \<Rightarrow> bool" where
  "namedOrHostOnChain rt n self name =
     list_ex (\<lambda>a. findProperty rt a name \<noteq> None \<or> ObjectFlags.hostObject (oflags (objects rt a)))
       (protoChain rt n (Some self))"

definition noLazyOnChain :: "Runtime \<Rightarrow> nat \<Rightarrow> addr \<Rightarrow> bool" where
  "noLazyOnChain rt n self =
     list_all (\<lambda>a. \<not> lazyObject (oflags (objects rt a))) (protoChain rt n (Some self))"

subsection \<open>getOwnPropertyNames\<close>

text \<open>
  The loop over the indexed range of \<^verbatim>\<open>JSObject::getOwnPropertyNames\<close>:
  \<^verbatim>\<open>for (auto i = range.first; i != range.second; ++i)\<close> on unsigned 32-bit indices. An
  index that is present (and enumerable, when only those are asked for) is appended as a
  number.
\<close>

function indexedNamesLoop :: "JSObject \<Rightarrow> bool \<Rightarrow> 32 word \<Rightarrow> 32 word \<Rightarrow> HermesValue list \<Rightarrow> HermesValue list" where
  "indexedNamesLoop obj onlyEnumerable i e arr =
     (if i = e then arr
      else indexedNamesLoop obj onlyEnumerable (i + 1) e
             (case getOwnIndexedPropertyFlags obj i of
                None \<Rightarrow> arr
              | Some res \<Rightarrow> if onlyEnumerable \<and> \<not> enumerable res then arr
                            else arr @ [encodeDoubleValue i]))"
  by pat_completeness auto
termination
proof (relation "measure (\<lambda>(obj, oe, i, e, arr). unat (e - i))")
  show "wf (measure (\<lambda>(obj, oe, i, e, arr). unat (e - i)))" by simp
next
  fix obj :: JSObject and onlyEnumerable :: bool and i e :: "32 word" and arr :: "HermesValue list"
  assume "i \<noteq> e"
  then have "e - i \<noteq> 0" by simp
  then have "unat (e - i - 1) < unat (e - i)"
    by (simp add: unat_minus_one unat_gt_0 word_neq_0_conv)
  moreover have "e - (i + 1) = e - i - 1" by simp
  ultimately have "unat (e - (i + 1)) < unat (e - i)" by metis
  then show "((obj, onlyEnumerable, i + 1, e, case getOwnIndexedPropertyFlags obj i of
                None \<Rightarrow> arr
              | Some res \<Rightarrow> if onlyEnumerable \<and> \<not> enumerable res then arr
                            else arr @ [encodeDoubleValue i]), (obj, onlyEnumerable, i, e, arr))
        \<in> measure (\<lambda>(obj, oe, i, e, arr). unat (e - i))"
    by simp
qed

text \<open>
  What both visitors of names do with a name they keep: a name that parses as an array
  index is stashed in \<open>indexNames\<close>, any other is appended to the array as a string.
\<close>

definition stashOrAppend ::
  "SymbolID \<Rightarrow> HermesValue list \<times> 32 word list \<Rightarrow> HermesValue list \<times> 32 word list" where
  "stashOrAppend id' st =
     (case toArrayIndex (getStringView id') of
        Some propNameAsIndex \<Rightarrow> (fst st, snd st @ [propNameAsIndex])
      | None \<Rightarrow> (fst st @ [StringValue (getStringView id')], snd st))"

text \<open>
  The visitor passed to \<^verbatim>\<open>HiddenClass::forEachProperty\<close>: names that are Symbols and,
  when only enumerable names are asked for, names that are not enumerable are skipped;
  for a host object that reported names, the name is recorded for deduplication.
\<close>

definition visitClassProperty ::
  "bool \<Rightarrow> nat \<Rightarrow> SymbolID \<times> NamedPropertyDescriptor
     \<Rightarrow> (HermesValue list \<times> 32 word list) \<times> SymbolID set
     \<Rightarrow> (HermesValue list \<times> 32 word list) \<times> SymbolID set" where
  "visitClassProperty onlyEnumerable hostObjectSymbolCount entry st =
     (if \<not> isPropertyNamePrimitive (fst entry) then st
      else if onlyEnumerable \<and> \<not> enumerable (flags (snd entry)) then st
      else (stashOrAppend (fst entry) (fst st),
            if hostObjectSymbolCount > 0 then insert (fst entry) (snd st) else snd st))"

text \<open>The loop over the names a host object reported: a name already seen is skipped.\<close>

definition visitHostSymbol ::
  "SymbolID \<Rightarrow> (HermesValue list \<times> 32 word list) \<times> SymbolID set
     \<Rightarrow> (HermesValue list \<times> 32 word list) \<times> SymbolID set" where
  "visitHostSymbol id' st =
     (if id' \<in> snd st then st else (stashOrAppend id' (fst st), insert id' (snd st)))"

text \<open>
  The shift of the non-index names to the right:
  \<^verbatim>\<open>for (last = endNamed, toLast = array->getEndIndex(); last != numIndexed;)\<close>, each step
  moving one element. \<open>last\<close> starts at \<open>endNamed\<close>, which is not below \<open>numIndexed\<close>.
\<close>

function shiftNames :: "HermesValue list \<Rightarrow> nat \<Rightarrow> nat \<Rightarrow> nat \<Rightarrow> HermesValue list" where
  "shiftNames arr numIndexed last' toLast =
     (if last' \<le> numIndexed then arr
      else shiftNames (arr[toLast - 1 := valueAt arr (last' - 1)]) numIndexed (last' - 1) (toLast - 1))"
  by pat_completeness auto
termination
  by (relation "measure (\<lambda>(arr, numIndexed, last', toLast). last')") auto

declare shiftNames.simps [simp del]

text \<open>
  The merge from the end of the indexes in \<open>indexNames\<close> and of the array
  \<open>[0..numIndexed)\<close>: the larger of the two last elements is copied to \<open>toLast - 1\<close>.
\<close>

fun mergeIndexNames :: "HermesValue list \<Rightarrow> 32 word list \<Rightarrow> nat \<Rightarrow> nat \<Rightarrow> nat \<Rightarrow> HermesValue list" where
  "mergeIndexNames arr indexNames numIndexed indexNamesLast 0 = arr"
| "mergeIndexNames arr indexNames numIndexed indexNamesLast (Suc toLast) =
     (if numIndexed \<noteq> 0
      then (let a = getNumberAsUint32 (valueAt arr (numIndexed - 1))
            in if indexNamesLast \<noteq> 0 \<and> indexNames ! (indexNamesLast - 1) > a
               then mergeIndexNames (arr[toLast := encodeDoubleValue (indexNames ! (indexNamesLast - 1))])
                      indexNames numIndexed (indexNamesLast - 1) toLast
               else mergeIndexNames (arr[toLast := encodeDoubleValue a])
                      indexNames (numIndexed - 1) indexNamesLast toLast)
      else mergeIndexNames (arr[toLast := encodeDoubleValue (indexNames ! (indexNamesLast - 1))])
             indexNames numIndexed (indexNamesLast - 1) toLast)"

text \<open>
  \<^verbatim>\<open>JSObject::getOwnPropertyNames\<close>. A lazy object is initialised first. The range is
  read before the host object is asked for its names. The array of the source is a list;
  the creation of the array is taken to succeed.
\<close>

definition getOwnPropertyNames ::
  "Env \<Rightarrow> Runtime \<Rightarrow> addr \<Rightarrow> bool \<Rightarrow> (error + HermesValue list) \<times> Runtime" where
  "getOwnPropertyNames env rt self onlyEnumerable =
     (let rt1 = (if lazyObject (oflags (objects rt self)) then initializeLazyObject env rt self else rt);
          range = getOwnIndexedRange (objects rt1 self)
      in if ObjectFlags.hostObject (oflags (objects rt1 self)) \<and> fst range \<noteq> snd range
         then (Inl AssertionFailure, rt1)
         else
           (case (if ObjectFlags.hostObject (oflags (objects rt1 self))
                  then getHostPropertyNames env self rt1 else (Inr [], rt1)) of
              (Inl e, rt2) \<Rightarrow> (Inl e, rt2)
            | (Inr hostObjectSymbols, rt2) \<Rightarrow>
                (let hostObjectSymbolCount = length hostObjectSymbols;
                     arr0 = indexedNamesLoop (objects rt2 self) onlyEnumerable (fst range) (snd range) [];
                     numIndexed = length arr0;
                     st1 = fold (visitClassProperty onlyEnumerable hostObjectSymbolCount)
                             (propertyMap (getClass rt2 self)) ((arr0, []), {});
                     st2 = fold visitHostSymbol hostObjectSymbols st1;
                     arr = fst (fst st2);
                     indexNames = snd (fst st2);
                     endNamed = length arr
                 in if indexNames = [] then (Inr arr, rt2)
                    else
                      (let sortedNames = sort indexNames;
                           arr1 = arr @ replicate (length sortedNames) EmptyValue;
                           arr2 = shiftNames arr1 numIndexed endNamed (length arr1)
                       in (Inr (mergeIndexNames arr2 sortedNames numIndexed (length sortedNames)
                                  (numIndexed + length sortedNames)), rt2)))))"

section \<open>Concrete heaps\<close>

definition plainObject :: "addr option \<Rightarrow> addr \<Rightarrow> JSObject" where
  "plainObject p c =
     \<lparr>kind = ObjectKind, parent = p, clazz = c, directProps = replicate 4 EmptyValue,
      propStorage = None, oflags = emptyObjectFlags, indexedImpl = None\<rparr>"

definition emptyClass :: HiddenClass where
  "emptyClass =
     \<lparr>propertyMap = [], numProperties = 0, isDictionary = False,
      hasIndexLikeProperties = False, forInCache = None\<rparr>"

text \<open>Three objects: 1 has prototype 2, 2 has prototype 3, 3 has none.\<close>

definition chainHeap :: Runtime where
  "chainHeap =
     \<lparr>objects = (\<lambda>a. if a = 1 then plainObject (Some 2) 0
                     else if a = 2 then plainObject (Some 3) 0
                     else plainObject None 0),
      classes = (\<lambda>a. emptyClass),
      accessors = (\<lambda>a. \<lparr>getter = None, setter = None\<rparr>),
      bigStorages = (\<lambda>a. []),
      nextCell = 10,
      objectPrototypeRawPtr = None,
      getHiddenClassForPrototypeRaw = (\<lambda>p. 0)\<rparr>"

definition idleEnv :: Env where
  "idleEnv =
     \<lparr>defineLazyProperties = (\<lambda>a rt. rt),
      executeCall0 = (\<lambda>f this rt. (Inr UndefinedValue, rt)),
      executeCall1 = (\<lambda>f this v rt. (Inr UndefinedValue, rt)),
      hostGet = (\<lambda>a name rt. (Inr UndefinedValue, rt)),
      hostSet = (\<lambda>a name v rt. (Inr True, rt)),
      getHostPropertyNames = (\<lambda>a rt. (Inr [], rt)),
      arraySetLength = (\<lambda>a v opFlags rt. (Inr True, rt)),
      shouldCacheForIn = (\<lambda>rt a. True)\<rparr>"

definition throwing :: PropOpFlags where
  "throwing = \<lparr>throwOnError = True, mustExist = False, internalForce = False\<rparr>"

definition quiet :: PropOpFlags where
  "quiet = \<lparr>throwOnError = False, mustExist = False, internalForce = False\<rparr>"

definition fixedX :: NamedPropertyDescriptor where
  "fixedX = \<lparr>slot = 0, flags = noPropertyFlags\<lparr>PropertyFlags.enumerable := True\<rparr>\<rparr>"

definition accessorY :: NamedPropertyDescriptor where
  "accessorY =
     \<lparr>slot = 1,
      flags = noPropertyFlags\<lparr>PropertyFlags.enumerable := True, configurable := True, accessor := True\<rparr>\<rparr>"

definition propHeap :: Runtime where
  "propHeap =
     \<lparr>objects = (\<lambda>a. (plainObject None 5)
                       \<lparr>directProps := [NumberValue (Finite 1), ObjectValue 20, EmptyValue, EmptyValue]\<rparr>),
      classes = (\<lambda>a. emptyClass\<lparr>propertyMap := [(Identifier ''x'', fixedX), (Identifier ''y'', accessorY)],
                                 numProperties := 2\<rparr>),
      accessors = (\<lambda>a. if a = 20 then \<lparr>getter = Some 30, setter = Some 31\<rparr>
                       else \<lparr>getter = Some 32, setter = None\<rparr>),
      bigStorages = (\<lambda>a. []),
      nextCell = 100,
      objectPrototypeRawPtr = None,
      getHiddenClassForPrototypeRaw = (\<lambda>p. 0)\<rparr>"

definition makeConfigurable :: DefinePropertyFlags where
  "makeConfigurable =
     valueOnly\<lparr>setValue := False, setConfigurable := True, DefinePropertyFlags.configurable := True\<rparr>"

definition getterOnly :: DefinePropertyFlags where
  "getterOnly = valueOnly\<lparr>setValue := False, setGetter := True\<rparr>"

definition propHeapAfter :: Runtime where
  "propHeapAfter =
     setNamedSlotValue
       (propHeap\<lparr>accessors := (accessors propHeap)(21 := \<lparr>getter = Some 32, setter = Some 31\<rparr>)\<rparr>)
       1 accessorY (ObjectValue 21)"

text \<open>
  The heap \<open>propHeap\<close> with the accessor property \<open>y\<close> made non-configurable, and
  the descriptor \<open>{writable: false}\<close>.
\<close>

definition lockedY :: NamedPropertyDescriptor where
  "lockedY = accessorY\<lparr>flags := (flags accessorY)\<lparr>configurable := False\<rparr>\<rparr>"

definition lockedHeap :: Runtime where
  "lockedHeap =
     propHeap\<lparr>classes :=
       (\<lambda>a. emptyClass\<lparr>propertyMap := [(Identifier ''x'', fixedX), (Identifier ''y'', lockedY)],
                       numProperties := 2\<rparr>)\<rparr>"

definition writableFalseOnly :: DefinePropertyFlags where
  "writableFalseOnly = valueOnly\<lparr>setValue := False, setWritable := True\<rparr>"

text \<open>The heap \<open>propHeap\<close> with one more accessor cell, 22, whose getter is that of cell 20.\<close>

definition sameGetterHeap :: Runtime where
  "sameGetterHeap =
     propHeap\<lparr>accessors := (accessors propHeap)(22 := \<lparr>getter = Some 30, setter = None\<rparr>)\<rparr>"

text \<open>A heap of lazy function objects with no property defined yet.\<close>

definition lazyHeap :: Runtime where
  "lazyHeap =
     chainHeap\<lparr>objects := (\<lambda>a. (plainObject None 0)\<lparr>kind := FunctionKind,
                                    oflags := emptyObjectFlags\<lparr>lazyObject := True\<rparr>\<rparr>)\<rparr>"

text \<open>
  A lazy initialiser that defines two properties on the function: a configurable
  \<open>length\<close> and a non-configurable \<open>prototype\<close>.
\<close>

definition definingEnv :: Env where
  "definingEnv =
     idleEnv\<lparr>defineLazyProperties :=
       (\<lambda>a rt. addOwnPropertyImpl
                 (addOwnPropertyImpl rt a (Identifier ''length'')
                    (noPropertyFlags\<lparr>configurable := True\<rparr>) (NumberValue (Finite 0)))
                 a (Identifier ''prototype'') (noPropertyFlags\<lparr>writable := True\<rparr>) NullValue)\<rparr>"





text \<open>
  Object 5 is a host object with no property; object 2 is an array-like object that
  owns the indexed slot 3; every other object is plain, with no property and with
  prototype 2.
\<close>

definition hostHeap :: Runtime where
  "hostHeap =
     chainHeap\<lparr>objects :=
       (\<lambda>a. if a = 5 then (plainObject None 0)\<lparr>kind := HostObjectKind,
                              oflags := emptyObjectFlags\<lparr>ObjectFlags.hostObject := True\<rparr>\<rparr>
            else if a = 2 then (plainObject None 0)\<lparr>kind := ArrayKind,
                              oflags := emptyObjectFlags\<lparr>indexedStorage := True\<rparr>,
                              indexedImpl := Some \<lparr>ownIndexedRange = (0, 4),
                                ownIndexed = (\<lambda>i. if i = 3 then Some (noPropertyFlags, NullValue) else None)\<rparr>\<rparr>
            else plainObject (Some 2) 0)\<rparr>"

section \<open>Prototype manipulation\<close>

lemma prototypeCycle_chain:
  "chainEnds rt n cur \<Longrightarrow> prototypeCycle rt self cur = Some (self \<in> set (protoChain rt n cur))"
proof (induction rt n cur rule: chainEnds.induct)
  case (1 rt n)
  show ?case by (subst prototypeCycle.simps) simp
next
  case (2 rt a)
  then show ?case by simp
next
  case (3 rt n a)
  then show ?case by (subst prototypeCycle.simps) auto
qed

text \<open>
  C1. On a heap whose prototype chain from the candidate \<open>A\<close> ends (invariant 8),
  \<open>setParent\<close> returns, and: if \<open>A\<close> is already the parent it succeeds with the heap
  unchanged, also when the object is not extensible; otherwise, if the object is not
  extensible it raises TypeError; otherwise, if the chain of \<open>A\<close> reaches the object it
  raises TypeError and the heap (so the parent field) is unchanged; otherwise it
  succeeds and the parent field becomes \<open>A\<close>.
\<close>

theorem setParent_cases:
  assumes "chainEnds rt n A"
  shows "setParent rt O' A =
           Some (if parent (objects rt O') = A then (Inr (), rt)
                 else if noExtend (oflags (objects rt O')) then (Inl TypeError, rt)
                 else if O' \<in> set (protoChain rt n A) then (Inl TypeError, rt)
                 else (Inr (), rt\<lparr>objects := (objects rt)(O' := (objects rt O')\<lparr>parent := A\<rparr>)\<rparr>))"
  using prototypeCycle_chain [OF assms, of O']
  by (simp add: setParent_def isExtensible_def updObject_def)

theorem setParent_cases_witness:
  "chainEnds chainHeap 5 (Some 2) \<and>
   setParent chainHeap 3 (Some 2) = Some (Inl TypeError, chainHeap) \<and>
   setParent chainHeap 1 (Some 2) = Some (Inr (), chainHeap) \<and>
   (\<exists>rt'. setParent chainHeap 1 (Some 3) = Some (Inr (), rt') \<and> parent (objects rt' 1) = Some 3)"
proof -
  have h: "chainEnds chainHeap 5 (Some 2)"
    by (simp add: chainHeap_def plainObject_def eval_nat_numeral)
  have h3: "chainEnds chainHeap 5 (Some 3)"
    by (simp add: chainHeap_def plainObject_def eval_nat_numeral)
  show ?thesis
    using h setParent_cases [OF h, of 3] setParent_cases [OF h, of 1] setParent_cases [OF h3, of 1]
    by (simp add: chainHeap_def plainObject_def emptyObjectFlags_def eval_nat_numeral)
qed

section \<open>The update rule on a non-configurable property\<close>

lemma unchanged_forbidden:
  "validDescriptor dpFlags v \<Longrightarrow> \<not> configurable currentFlags \<Longrightarrow>
   rejectedChange currentFlags dpFlags cur v \<Longrightarrow>
   unchangedByUpdate rt currentFlags dpFlags cur v = Some False"
  by (auto simp: unchangedByUpdate_def validDescriptor_def rejectedChange_def isAccessor_def)

lemma checkPropertyUpdate_forbidden:
  assumes "validDescriptor dpFlags v" and "\<not> configurable currentFlags"
    and "rejectedChange currentFlags dpFlags cur v"
  shows "checkPropertyUpdate rt currentFlags dpFlags cur v opFlags = updateFailed rt opFlags"
proof -
  have ne: "\<not> isEmpty dpFlags"
    using assms(3) by (auto simp: isEmpty_def rejectedChange_def isAccessor_def)
  have ok: "\<not> ((isAccessor dpFlags \<and> (setWritable dpFlags \<or> DefinePropertyFlags.writable dpFlags)) \<or>
              enableInternalSetter dpFlags)"
    using assms(1) by (auto simp: validDescriptor_def)
  show ?thesis
    using assms unchanged_forbidden [OF assms, of rt] ne ok
    unfolding checkPropertyUpdate_def
    by (auto simp: validDescriptor_def rejectedChange_def isAccessor_def)
qed

lemma checkPropertyUpdate_sameValue:
  assumes "\<not> accessor currentFlags"
  shows "checkPropertyUpdate rt currentFlags valueOnly cur cur opFlags = (Inr (StatusDone, currentFlags), rt)"
  by (simp add: checkPropertyUpdate_def valueOnly_def isEmpty_def isAccessor_def unchangedByUpdate_def isSameValue_def)

lemma checkPropertyUpdate_otherValue:
  assumes "\<not> accessor currentFlags" "\<not> configurable currentFlags" "\<not> writable currentFlags" "\<not> isSameValue cur w"
  shows "checkPropertyUpdate rt currentFlags valueOnly cur w opFlags = updateFailed rt opFlags"
  using assms
  by (simp add: checkPropertyUpdate_def valueOnly_def isEmpty_def isAccessor_def unchangedByUpdate_def)

lemma defineOwnProperty_found:
  assumes "findProperty rt self name = Some desc" "\<not> mustExist opFlags" "validDescriptor dpFlags v"
  shows "defineOwnProperty env rt self name dpFlags v opFlags =
           Some (updateOwnProperty env rt self name name desc dpFlags v opFlags)"
  using assms by (subst defineOwnProperty.simps) (auto simp: validDescriptor_def)

lemma updateOwnProperty_failed:
  assumes "checkPropertyUpdate rt (flags desc) dpFlags (getNamedSlotValue (objects rt self) desc) v opFlags
             = updateFailed rt opFlags"
  shows "updateOwnProperty env rt self name pos desc dpFlags v opFlags =
           (if throwOnError opFlags then (Inl TypeError, rt) else (Inr False, rt))"
  using assms by (simp add: updateOwnProperty_def updateFailed_def)

lemma updateOwnProperty_done:
  assumes "checkPropertyUpdate rt (flags desc) dpFlags (getNamedSlotValue (objects rt self) desc) v opFlags
             = (Inr (StatusDone, flags desc), rt)"
  shows "updateOwnProperty env rt self name pos desc dpFlags v opFlags = (Inr True, rt)"
  using assms by (simp add: updateOwnProperty_def installFlags_def)

lemma validDescriptor_valueOnly: "validDescriptor valueOnly w"
  by (simp add: validDescriptor_def valueOnly_def isAccessor_def)

text \<open>
  On an own property \<open>x\<close> of \<open>O\<close> that is not configurable: if \<open>x\<close> is a
  non-writable data property holding \<open>v\<close>, then \<open>defineOwnProperty(O, x, {value: w})\<close>
  succeeds and leaves the whole heap (so the flags and the slot) unchanged when \<open>w\<close> is
  SameValue to \<open>v\<close>, and otherwise fails: TypeError under \<open>throwOnError\<close>, else
  \<open>false\<close>. And every request of \<open>rejectedChange\<close> is rejected in the same way.
\<close>

lemma defineOwnProperty_rejected:
  assumes "findProperty rt O' x = Some desc"
    and "\<not> configurable (flags desc)"
    and "\<not> mustExist opFlags"
  shows
    "(\<not> writable (flags desc) \<and> \<not> accessor (flags desc) \<longrightarrow>
        defineOwnProperty env rt O' x valueOnly w opFlags =
          Some (if isSameValue (getNamedSlotValue (objects rt O') desc) w then (Inr True, rt)
                else if throwOnError opFlags then (Inl TypeError, rt) else (Inr False, rt))) \<and>
     (validDescriptor dpFlags w \<and>
      rejectedChange (flags desc) dpFlags (getNamedSlotValue (objects rt O') desc) w \<longrightarrow>
        defineOwnProperty env rt O' x dpFlags w opFlags =
          Some (if throwOnError opFlags then (Inl TypeError, rt) else (Inr False, rt)))"
proof (intro conjI impI)
  assume a: "\<not> writable (flags desc) \<and> \<not> accessor (flags desc)"
  show "defineOwnProperty env rt O' x valueOnly w opFlags =
          Some (if isSameValue (getNamedSlotValue (objects rt O') desc) w then (Inr True, rt)
                else if throwOnError opFlags then (Inl TypeError, rt) else (Inr False, rt))"
  proof (cases "isSameValue (getNamedSlotValue (objects rt O') desc) w")
    case True
    then have "w = getNamedSlotValue (objects rt O') desc" by (simp add: isSameValue_def)
    then show ?thesis
      using a True defineOwnProperty_found [OF assms(1,3) validDescriptor_valueOnly]
        updateOwnProperty_done checkPropertyUpdate_sameValue
      by simp
  next
    case False
    then show ?thesis
      using a assms(2) defineOwnProperty_found [OF assms(1,3) validDescriptor_valueOnly]
        updateOwnProperty_failed checkPropertyUpdate_otherValue
      by simp
  qed
next
  assume b: "validDescriptor dpFlags w \<and>
      rejectedChange (flags desc) dpFlags (getNamedSlotValue (objects rt O') desc) w"
  then show "defineOwnProperty env rt O' x dpFlags w opFlags =
          Some (if throwOnError opFlags then (Inl TypeError, rt) else (Inr False, rt))"
    using defineOwnProperty_found [OF assms(1,3)] updateOwnProperty_failed
      checkPropertyUpdate_forbidden [OF _ assms(2)]
    by simp
qed


lemma defineOwnProperty_rejected_examples:
  "defineOwnProperty idleEnv propHeap 1 (Identifier ''x'') valueOnly (NumberValue (Finite 2)) throwing
     = Some (Inl TypeError, propHeap) \<and>
   defineOwnProperty idleEnv propHeap 1 (Identifier ''x'') valueOnly (NumberValue (Finite 1)) quiet
     = Some (Inr True, propHeap) \<and>
   defineOwnProperty idleEnv propHeap 1 (Identifier ''x'') makeConfigurable UndefinedValue quiet
     = Some (Inr False, propHeap)"
proof -
  have f: "findProperty propHeap 1 (Identifier ''x'') = Some fixedX"
    by (simp add: findProperty_def getClass_def HiddenClass_findProperty_def propHeap_def emptyClass_def)
  have c: "\<not> configurable (flags fixedX)" "\<not> writable (flags fixedX)" "\<not> accessor (flags fixedX)"
    by (simp_all add: fixedX_def noPropertyFlags_def)
  have v: "getNamedSlotValue (objects propHeap 1) fixedX = NumberValue (Finite 1)"
    by (simp add: getNamedSlotValue_def propHeap_def plainObject_def fixedX_def
        DIRECT_PROPERTY_SLOTS_def valueAt_def)
  have m: "\<not> mustExist throwing" "\<not> mustExist quiet" "throwOnError throwing" "\<not> throwOnError quiet"
    by (simp_all add: throwing_def quiet_def)
  have d: "validDescriptor makeConfigurable UndefinedValue"
    "rejectedChange (flags fixedX) makeConfigurable (NumberValue (Finite 1)) UndefinedValue"
    by (simp_all add: validDescriptor_def rejectedChange_def makeConfigurable_def valueOnly_def
        isAccessor_def)
  show ?thesis
    using defineOwnProperty_rejected [OF f c(1) m(1), where w = "NumberValue (Finite 2)" and env = idleEnv and dpFlags = valueOnly]
      defineOwnProperty_rejected [OF f c(1) m(2), where w = "NumberValue (Finite 1)" and env = idleEnv and dpFlags = valueOnly]
      defineOwnProperty_rejected [OF f c(1) m(2), where w = UndefinedValue and env = idleEnv and dpFlags = makeConfigurable]
      c v m d
    by (simp add: isSameValue_def)
qed


text \<open>
  C2. The claim says that on a non-configurable property \<open>defineOwnProperty\<close> rejects
  a conversion between data and accessor. Property \<open>y\<close> of object 3 in \<open>lockedHeap\<close>
  is a non-configurable accessor. The data descriptor \<open>{writable: false}\<close> (it mentions
  writable and nothing else) asks for a conversion by the test of branch [9]. Yet the call under \<open>throwOnError\<close> returns
  true and changes nothing: branch [6] answers first, because the writable bit in the
  flags of an accessor property is clear and so equals the bit of the descriptor.
\<close>

theorem defineOwnProperty_writableOnly_on_accessor:
  "findProperty lockedHeap 3 (Identifier ''y'') = Some lockedY \<and>
   accessor (flags lockedY) \<and> \<not> configurable (flags lockedY) \<and>
   setWritable writableFalseOnly \<and> \<not> isAccessor writableFalseOnly \<and>
   changesKind (flags lockedY) writableFalseOnly \<and>
   throwOnError throwing \<and>
   defineOwnProperty idleEnv lockedHeap 3 (Identifier ''y'') writableFalseOnly UndefinedValue throwing
     = Some (Inr True, lockedHeap)"
proof -
  have f: "findProperty lockedHeap 3 (Identifier ''y'') = Some lockedY"
    by (simp add: findProperty_def getClass_def HiddenClass_findProperty_def lockedHeap_def propHeap_def
        emptyClass_def)
  have d: "validDescriptor writableFalseOnly UndefinedValue" "\<not> mustExist throwing" "throwOnError throwing"
    by (simp_all add: validDescriptor_def writableFalseOnly_def valueOnly_def isAccessor_def throwing_def)
  have k: "accessor (flags lockedY)" "\<not> configurable (flags lockedY)" "\<not> writable (flags lockedY)"
    "changesKind (flags lockedY) writableFalseOnly"
    by (simp_all add: lockedY_def accessorY_def noPropertyFlags_def changesKind_def writableFalseOnly_def
        valueOnly_def isAccessor_def)
  have c: "checkPropertyUpdate lockedHeap (flags lockedY) writableFalseOnly
             (getNamedSlotValue (objects lockedHeap 3) lockedY) UndefinedValue throwing
           = (Inr (StatusDone, flags lockedY), lockedHeap)"
    using k(3)
    by (simp add: checkPropertyUpdate_def unchangedByUpdate_def isEmpty_def writableFalseOnly_def
        valueOnly_def isAccessor_def)
  have w: "setWritable writableFalseOnly" "\<not> isAccessor writableFalseOnly"
    by (simp_all add: writableFalseOnly_def valueOnly_def isAccessor_def)
  show ?thesis
    using f d k w defineOwnProperty_found [OF f d(2) d(1), of idleEnv] updateOwnProperty_done [OF c]
    by simp
qed

section \<open>Merging two accessors\<close>

lemma map_of_updateFlags:
  "map_of (map (\<lambda>(k, d). if k = pos then (k, d\<lparr>flags := fl\<rparr>) else (k, d)) xs) pos
     = map_option (\<lambda>d. d\<lparr>flags := fl\<rparr>) (map_of xs pos)"
  by (induction xs) auto

lemma installFlags_find:
  assumes "findProperty rt self name = Some desc"
    and "installFlags rt self name desc newFlags = (desc', rt')"
  shows "findProperty rt' self name = Some desc' \<and> desc' = desc\<lparr>flags := newFlags\<rparr>"
  using assms
  by (auto simp: installFlags_def findProperty_def getClass_def HiddenClass_findProperty_def
      updateProperty_def allocClass_def updObject_def Let_def map_of_updateFlags split: if_splits)

lemma installFlags_frame:
  assumes "installFlags rt self pos desc newFlags = (desc', rt')"
  shows "accessors rt' = accessors rt"
    and "directProps (objects rt' a) = directProps (objects rt a)"
    and "propStorage (objects rt' a) = propStorage (objects rt a)"
    and "slot desc' = slot desc"
  using assms
  by (auto simp: installFlags_def updateProperty_def allocClass_def updObject_def Let_def
      split: if_splits)

lemma slot_read_after_write:
  assumes "getNamedSlotValue obj desc \<noteq> EmptyValue" and "slot desc' = slot desc"
  shows "getNamedSlotValue (setSlot obj (slot desc) v) desc' = v"
  using assms
  by (auto simp: getNamedSlotValue_def setSlot_def valueAt_def split: if_splits option.splits)

lemma checkPropertyUpdate_accessors:
  assumes "accessor currentFlags" and "isAccessor dpFlags"
    and "validDescriptor dpFlags (ObjectValue na)"
    and "checkPropertyUpdate rt currentFlags dpFlags (ObjectValue ca) (ObjectValue na) opFlags
           = (Inr (status, newFlags), rt1)"
    and "status \<noteq> StatusFailed"
  shows "(unchangedByUpdate rt currentFlags dpFlags (ObjectValue ca) (ObjectValue na) = Some True \<and>
          status = StatusDone \<and> rt1 = rt \<and> newFlags = currentFlags \<and>
          accessors rt ca = mergedAccessor rt dpFlags ca na) \<or>
         (unchangedByUpdate rt currentFlags dpFlags (ObjectValue ca) (ObjectValue na) = Some False \<and>
          status = StatusNeedSet \<and> accessor newFlags \<and>
          rt1 = rt\<lparr>accessors := (accessors rt)(na := mergedAccessor rt dpFlags ca na)\<rparr>)"
proof -
  have ne: "\<not> isEmpty dpFlags"
    using assms(2) by (auto simp: isEmpty_def isAccessor_def)
  have ok: "\<not> ((isAccessor dpFlags \<and> (setWritable dpFlags \<or> DefinePropertyFlags.writable dpFlags)) \<or>
              enableInternalSetter dpFlags)"
    using assms(3) by (auto simp: validDescriptor_def)
  have nv: "\<not> setValue dpFlags"
    using assms(2,3) by (auto simp: validDescriptor_def)
  show ?thesis
  proof (cases "unchangedByUpdate rt currentFlags dpFlags (ObjectValue ca) (ObjectValue na)")
    case None
    then show ?thesis
      using assms(4) ne ok by (simp add: checkPropertyUpdate_def)
  next
    case (Some b)
    show ?thesis
    proof (cases b)
      case True
      have "accessors rt ca = mergedAccessor rt dpFlags ca na"
        using Some True assms(1,2)
        by (auto simp: unchangedByUpdate_def mergedAccessor_def split: if_splits)
      then show ?thesis
        using Some True assms(4) ne ok by (simp add: checkPropertyUpdate_def)
    next
      case False
      have fin: "finishUpdate fl dpFlags = (StatusNeedSet, snd (finishUpdate fl dpFlags)) \<and>
                 accessor (snd (finishUpdate fl dpFlags))" for fl
        using assms(2) nv by (simp add: finishUpdate_def Let_def)
      have upd: "(let rt1 = (if \<not> setGetter dpFlags
                                  then updAccessor rt na (\<lambda>acc. acc\<lparr>getter := getter (accessors rt ca)\<rparr>)
                                  else rt);
                      rt2 = (if \<not> setSetter dpFlags
                                  then updAccessor rt1 na (\<lambda>acc. acc\<lparr>setter := setter (accessors rt1 ca)\<rparr>)
                                  else rt1)
                  in rt2) = rt\<lparr>accessors := (accessors rt)(na := mergedAccessor rt dpFlags ca na)\<rparr>"
      proof -
        have e: "acc\<lparr>getter := g\<rparr> = \<lparr>getter = g, setter = setter acc\<rparr>"
          "acc\<lparr>setter := s\<rparr> = \<lparr>getter = getter acc, setter = s\<rparr>"
          "\<lparr>getter = getter acc, setter = setter acc\<rparr> = acc" for acc :: PropertyAccessor and g s
          by (cases acc; simp)+
        show ?thesis
          using assms(2)
          by (cases "ca = na") (auto simp: updAccessor_def mergedAccessor_def isAccessor_def Let_def e)
      qed
      show ?thesis
        using Some False assms(1,2,4,5) ne ok nv upd fin [of currentFlags]
        by (auto simp: checkPropertyUpdate_def updateFailed_def Let_def isAccessor_def
            split: if_splits simp del: fun_upd_apply)
    qed
  qed
qed


lemma findProperty_cong:
  "classes rt' = classes rt \<Longrightarrow> clazz (objects rt' self) = clazz (objects rt self) \<Longrightarrow>
   findProperty rt' self name = findProperty rt self name"
  by (simp add: findProperty_def getClass_def)

text \<open>
  C3, as the code has it. When \<open>defineOwnProperty\<close> with an accessor descriptor is
  accepted on an own accessor property, the property afterwards has the merged accessor:
  each mentioned half from the supplied cell, each half not mentioned from the cell
  that was stored. The cell written to effect the merge is the supplied one, and the
  slot then points to it; no other accessor cell is written, so the cell that was
  stored is not (unless it is the supplied cell itself). When the update changes
  nothing, nothing is written: the heap after the call is the heap before it, and the
  stored cell stays.
\<close>

theorem defineOwnProperty_accessor_merge:
  assumes found: "findProperty rt O' x = Some desc"
    and acc: "accessor (flags desc)"
    and cur: "getNamedSlotValue (objects rt O') desc = ObjectValue ca"
    and dpf: "isAccessor dpFlags" "validDescriptor dpFlags (ObjectValue na)"
    and nm: "\<not> mustExist opFlags"
    and run: "defineOwnProperty env rt O' x dpFlags (ObjectValue na) opFlags = Some (Inr True, rt')"
  shows "getOwnAccessor rt' O' x =
           Some (if unchangedByUpdate rt (flags desc) dpFlags (ObjectValue ca) (ObjectValue na) = Some True
                 then ca else na,
                 mergedAccessor rt dpFlags ca na) \<and>
         (ca \<noteq> na \<longrightarrow> accessors rt' ca = accessors rt ca) \<and>
         (unchangedByUpdate rt (flags desc) dpFlags (ObjectValue ca) (ObjectValue na) = Some True
            \<longrightarrow> rt' = rt) \<and>
         (unchangedByUpdate rt (flags desc) dpFlags (ObjectValue ca) (ObjectValue na) \<noteq> Some True
            \<longrightarrow> accessors rt' = (accessors rt)(na := mergedAccessor rt dpFlags ca na))"
proof -
  have upd: "updateOwnProperty env rt O' x x desc dpFlags (ObjectValue na) opFlags = (Inr True, rt')"
    using defineOwnProperty_found [OF found nm dpf(2), of env] run by simp
  obtain res rt1 where chk:
    "checkPropertyUpdate rt (flags desc) dpFlags (ObjectValue ca) (ObjectValue na) opFlags = (res, rt1)"
    by (cases "checkPropertyUpdate rt (flags desc) dpFlags (ObjectValue ca) (ObjectValue na) opFlags")
  obtain status newFlags where res: "res = Inr (status, newFlags)" and nf: "status \<noteq> StatusFailed"
    using upd chk cur
    by (cases res) (auto simp: updateOwnProperty_def split: if_splits)
  obtain desc' rt2 where inst: "installFlags rt1 O' x desc newFlags = (desc', rt2)"
    by (cases "installFlags rt1 O' x desc newFlags")
  have nv: "\<not> setValue dpFlags"
    using dpf by (auto simp: validDescriptor_def)
  from checkPropertyUpdate_accessors [OF acc dpf chk [unfolded res] nf]
  show ?thesis
  proof (elim disjE conjE)
    assume u: "unchangedByUpdate rt (flags desc) dpFlags (ObjectValue ca) (ObjectValue na) = Some True"
      and st: "status = StatusDone" and r: "rt1 = rt" and f: "newFlags = flags desc"
      and m: "accessors rt ca = mergedAccessor rt dpFlags ca na"
    have same: "rt' = rt"
      using upd chk cur res st r f by (simp add: updateOwnProperty_def installFlags_def)
    have "getOwnAccessor rt O' x = Some (ca, mergedAccessor rt dpFlags ca na)"
      using m found acc cur by (simp add: getOwnAccessor_def)
    then show ?thesis
      using u same by simp
  next
    assume u: "unchangedByUpdate rt (flags desc) dpFlags (ObjectValue ca) (ObjectValue na) = Some False"
      and st: "status = StatusNeedSet" and an: "accessor newFlags"
      and r: "rt1 = rt\<lparr>accessors := (accessors rt)(na := mergedAccessor rt dpFlags ca na)\<rparr>"
    have found1: "findProperty rt1 O' x = Some desc"
      using found r by (simp add: findProperty_def getClass_def)
    have rt': "rt' = setNamedSlotValue rt2 O' desc' (ObjectValue na)"
      using upd chk cur res st inst nv dpf(1) by (simp add: updateOwnProperty_def)
    have d': "findProperty rt2 O' x = Some desc'" "desc' = desc\<lparr>flags := newFlags\<rparr>"
      using installFlags_find [OF found1 inst] by simp_all
    have fr: "accessors rt2 = accessors rt1"
      "directProps (objects rt2 O') = directProps (objects rt1 O')"
      "propStorage (objects rt2 O') = propStorage (objects rt1 O')"
      using installFlags_frame [OF inst] by simp_all
    have rd: "getNamedSlotValue (objects rt2 O') desc = ObjectValue ca"
      using cur fr r by (simp add: getNamedSlotValue_def split: if_splits)
    have f': "findProperty rt' O' x = Some desc'"
      using d'(1) rt' by (simp add: findProperty_def getClass_def setNamedSlotValue_def updObject_def setSlot_def)
    have sl: "getNamedSlotValue (objects rt' O') desc' = ObjectValue na"
      using slot_read_after_write [of "objects rt2 O'" desc desc' "ObjectValue na"] rd d'(2) rt'
      by (simp add: setNamedSlotValue_def updObject_def)
    have ac: "accessors rt' = (accessors rt)(na := mergedAccessor rt dpFlags ca na)"
      using rt' fr(1) r by (simp add: setNamedSlotValue_def updObject_def)
    have "getOwnAccessor rt' O' x = Some (na, mergedAccessor rt dpFlags ca na)"
      using f' sl ac an d'(2) by (simp add: getOwnAccessor_def)
    then show ?thesis
      using u ac by simp
  qed
qed

theorem defineOwnProperty_accessor_merge_witness:
  "getOwnAccessor propHeapAfter 1 (Identifier ''y'') = Some (21, \<lparr>getter = Some 32, setter = Some 31\<rparr>) \<and>
   accessors propHeapAfter 20 = accessors propHeap 20 \<and>
   accessors propHeapAfter = (accessors propHeap)(21 := \<lparr>getter = Some 32, setter = Some 31\<rparr>) \<and>
   defineOwnProperty idleEnv sameGetterHeap 1 (Identifier ''y'') getterOnly (ObjectValue 22) throwing
     = Some (Inr True, sameGetterHeap) \<and>
   getOwnAccessor sameGetterHeap 1 (Identifier ''y'') = Some (20, \<lparr>getter = Some 30, setter = Some 31\<rparr>)"
proof -
  have f2: "findProperty sameGetterHeap 1 (Identifier ''y'') = Some accessorY"
    by (simp add: findProperty_def getClass_def HiddenClass_findProperty_def propHeap_def emptyClass_def
        sameGetterHeap_def)
  have c2: "getNamedSlotValue (objects sameGetterHeap 1) accessorY = ObjectValue 20"
    by (simp add: getNamedSlotValue_def propHeap_def plainObject_def accessorY_def
        DIRECT_PROPERTY_SLOTS_def valueAt_def sameGetterHeap_def)
  have d2: "validDescriptor getterOnly (ObjectValue 22)"
    by (simp add: validDescriptor_def getterOnly_def valueOnly_def isAccessor_def)
  have u2: "unchangedByUpdate sameGetterHeap (flags accessorY) getterOnly (ObjectValue 20) (ObjectValue 22)
              = Some True"
    by (simp add: unchangedByUpdate_def getterOnly_def valueOnly_def isAccessor_def accessorY_def
        noPropertyFlags_def sameGetterHeap_def propHeap_def)
  have "\<exists>rt2. defineOwnProperty idleEnv sameGetterHeap 1 (Identifier ''y'') getterOnly (ObjectValue 22)
                throwing = Some (Inr True, rt2)"
    apply (subst defineOwnProperty.simps)
    apply (simp add: getterOnly_def valueOnly_def throwing_def isAccessor_def findProperty_def getClass_def
      HiddenClass_findProperty_def propHeap_def emptyClass_def plainObject_def accessorY_def fixedX_def
      noPropertyFlags_def updateOwnProperty_def checkPropertyUpdate_def isEmpty_def unchangedByUpdate_def
      getNamedSlotValue_def DIRECT_PROPERTY_SLOTS_def valueAt_def sameGetterHeap_def installFlags_def)
    done
  then obtain rt2 where run2:
    "defineOwnProperty idleEnv sameGetterHeap 1 (Identifier ''y'') getterOnly (ObjectValue 22) throwing
       = Some (Inr True, rt2)"
    by blast
  have f: "findProperty propHeap 1 (Identifier ''y'') = Some accessorY"
    by (simp add: findProperty_def getClass_def HiddenClass_findProperty_def propHeap_def emptyClass_def)
  have a: "accessor (flags accessorY)"
    by (simp add: accessorY_def noPropertyFlags_def)
  have c: "getNamedSlotValue (objects propHeap 1) accessorY = ObjectValue 20"
    by (simp add: getNamedSlotValue_def propHeap_def plainObject_def accessorY_def
        DIRECT_PROPERTY_SLOTS_def valueAt_def)
  have d: "isAccessor getterOnly" "validDescriptor getterOnly (ObjectValue 21)"
    by (simp_all add: validDescriptor_def getterOnly_def valueOnly_def isAccessor_def)
  have m: "\<not> mustExist throwing"
    by (simp add: throwing_def)
  have run: "defineOwnProperty idleEnv propHeap 1 (Identifier ''y'') getterOnly (ObjectValue 21) throwing
               = Some (Inr True, propHeapAfter)"
    apply (subst defineOwnProperty.simps)
    apply (simp add: getterOnly_def valueOnly_def throwing_def isAccessor_def findProperty_def getClass_def
      HiddenClass_findProperty_def propHeap_def emptyClass_def plainObject_def accessorY_def fixedX_def
      noPropertyFlags_def updateOwnProperty_def checkPropertyUpdate_def isEmpty_def unchangedByUpdate_def
      getNamedSlotValue_def DIRECT_PROPERTY_SLOTS_def valueAt_def finishUpdate_def updAccessor_def
      installFlags_def setNamedSlotValue_def updObject_def setSlot_def propHeapAfter_def Let_def)
    done
  have noop: "rt2 = sameGetterHeap \<and>
      getOwnAccessor rt2 1 (Identifier ''y'') = Some (20, \<lparr>getter = Some 30, setter = Some 31\<rparr>)"
  proof -
    have cells: "accessors sameGetterHeap 20 = \<lparr>getter = Some 30, setter = Some 31\<rparr>"
      "accessors sameGetterHeap 22 = \<lparr>getter = Some 30, setter = None\<rparr>"
      by (simp_all add: sameGetterHeap_def propHeap_def)
    have g: "setGetter getterOnly" "\<not> setSetter getterOnly"
      by (simp_all add: getterOnly_def valueOnly_def)
    show ?thesis
      using defineOwnProperty_accessor_merge [OF f2 a c2 d(1) d2 m run2] u2 cells g
      by (auto simp: mergedAccessor_def)
  qed
  have merge: "getOwnAccessor propHeapAfter 1 (Identifier ''y'') =
        Some (21, \<lparr>getter = Some 32, setter = Some 31\<rparr>) \<and>
      accessors propHeapAfter 20 = accessors propHeap 20 \<and>
      accessors propHeapAfter = (accessors propHeap)(21 := \<lparr>getter = Some 32, setter = Some 31\<rparr>)"
    using defineOwnProperty_accessor_merge [OF f a c d m run]
    by (simp add: mergedAccessor_def getterOnly_def valueOnly_def propHeap_def unchangedByUpdate_def
        accessorY_def noPropertyFlags_def isAccessor_def)
  have n1: "defineOwnProperty idleEnv sameGetterHeap 1 (Identifier ''y'') getterOnly (ObjectValue 22) throwing
     = Some (Inr True, sameGetterHeap)"
    using noop run2 by simp
  have n2: "getOwnAccessor sameGetterHeap 1 (Identifier ''y'') =
      Some (20, \<lparr>getter = Some 30, setter = Some 31\<rparr>)"
    using noop by blast
  show ?thesis
    using n1 n2 merge by blast
qed

text \<open>
  C3 as stated says that the stored cell is the one written. Here the property \<open>y\<close>
  of object 1 stores cell 20; after an accepted update that mentions only the getter,
  cell 20 is as it was, and the slot points to the supplied cell 21, which now carries
  the setter of cell 20.
\<close>

theorem storedCell_mutated_counterexample:
  "(case defineOwnProperty idleEnv propHeap 1 (Identifier ''y'') getterOnly (ObjectValue 21) throwing of
      Some (Inr ok, rt') \<Rightarrow>
        ok \<and> getOwnAccessor propHeap 1 (Identifier ''y'') = Some (20, \<lparr>getter = Some 30, setter = Some 31\<rparr>) \<and>
        accessors rt' 20 = \<lparr>getter = Some 30, setter = Some 31\<rparr> \<and>
        getOwnAccessor rt' 1 (Identifier ''y'') = Some (21, \<lparr>getter = Some 32, setter = Some 31\<rparr>)
    | _ \<Rightarrow> False)"
  apply (subst defineOwnProperty.simps)
  apply (simp add: getterOnly_def valueOnly_def throwing_def isAccessor_def findProperty_def getClass_def
      HiddenClass_findProperty_def propHeap_def emptyClass_def plainObject_def accessorY_def fixedX_def
      noPropertyFlags_def updateOwnProperty_def checkPropertyUpdate_def isEmpty_def unchangedByUpdate_def
      getNamedSlotValue_def DIRECT_PROPERTY_SLOTS_def valueAt_def finishUpdate_def updAccessor_def
      installFlags_def setNamedSlotValue_def updObject_def setSlot_def getOwnAccessor_def Let_def)
  done

section \<open>Delete\<close>

lemma map_of_filter_out: "map_of (filter (\<lambda>(k, d). k \<noteq> pos) xs) pos = None"
  by (induction xs) auto

lemma allocateNewSlotStorage_fields:
  "clazz (allocateNewSlotStorage obj i v) = clazz obj"
  "oflags (allocateNewSlotStorage obj i v) = oflags obj"
  "parent (allocateNewSlotStorage obj i v) = parent obj"
  by (simp_all add: allocateNewSlotStorage_def Let_def)

lemma addOwnPropertyImpl_getClass:
  "getClass (addOwnPropertyImpl rt self name fl v) self =
     (getClass rt self)
       \<lparr>propertyMap := propertyMap (getClass rt self) @
            [(name, \<lparr>slot = numProperties (getClass rt self), flags = fl\<rparr>)],
        numProperties := Suc (numProperties (getClass rt self)),
        hasIndexLikeProperties :=
          (hasIndexLikeProperties (getClass rt self) \<or> toArrayIndex (getStringView name) \<noteq> None),
        forInCache := None\<rparr>"
  by (simp add: addOwnPropertyImpl_def addProperty_def allocClass_def Let_def
      updObject_def updObjectFlags_def getClass_def allocateNewSlotStorage_fields)

lemma getClass_updObjectFlags: "getClass (updObjectFlags rt self f) a = getClass rt a"
  by (simp add: getClass_def updObjectFlags_def updObject_def)

lemma definingEnv_lazyHeap:
  "findProperty (initializeLazyObject definingEnv lazyHeap 4) 4 (Identifier ''prototype'')
     = Some \<lparr>slot = Suc 0, flags = noPropertyFlags\<lparr>writable := True\<rparr>\<rparr>"
  "findProperty (initializeLazyObject definingEnv lazyHeap 4) 4 (Identifier ''length'')
     = Some \<lparr>slot = 0, flags = noPropertyFlags\<lparr>configurable := True\<rparr>\<rparr>"
proof -
  have c: "getClass lazyHeap a = emptyClass" for a
    by (simp add: getClass_def lazyHeap_def chainHeap_def)
  have g: "getClass (initializeLazyObject definingEnv lazyHeap 4) 4 =
       emptyClass\<lparr>propertyMap :=
           [(Identifier ''length'', \<lparr>slot = 0, flags = noPropertyFlags\<lparr>configurable := True\<rparr>\<rparr>),
            (Identifier ''prototype'', \<lparr>slot = Suc 0, flags = noPropertyFlags\<lparr>writable := True\<rparr>\<rparr>)],
         numProperties := 2\<rparr>"
    by (simp add: initializeLazyObject_def definingEnv_def idleEnv_def addOwnPropertyImpl_getClass
        getClass_updObjectFlags c emptyClass_def toArrayIndex_def digitOf_def)
  show "findProperty (initializeLazyObject definingEnv lazyHeap 4) 4 (Identifier ''prototype'')
             = Some \<lparr>slot = Suc 0, flags = noPropertyFlags\<lparr>writable := True\<rparr>\<rparr>"
    "findProperty (initializeLazyObject definingEnv lazyHeap 4) 4 (Identifier ''length'')
             = Some \<lparr>slot = 0, flags = noPropertyFlags\<lparr>configurable := True\<rparr>\<rparr>"
    by (simp_all add: findProperty_def HiddenClass_findProperty_def g)
qed

text \<open>
  C7, as the code has it. \<open>deleteNamed(O, P)\<close> looks at the own properties of \<open>O\<close>
  only. When \<open>P\<close> is not found and \<open>O\<close> is a lazy object, \<open>O\<close> is initialised
  first and \<open>P\<close> is looked up once more; in every other case the lookup is the first
  one and the heap is still the heap of the call. Let \<open>rt1\<close> be the heap after this
  step. If \<open>P\<close> is not found in \<open>rt1\<close>, the call returns true and the heap is
  \<open>rt1\<close>. If \<open>P\<close> is found and not configurable, the call fails (TypeError under
  \<open>throwOnError\<close>, else false) and the heap is \<open>rt1\<close>. Otherwise it returns true; the
  object is the one of \<open>rt1\<close> with the slot of \<open>P\<close> overwritten by empty and with a
  new class, the class is the one of \<open>rt1\<close> without \<open>P\<close>, every other object is as
  in \<open>rt1\<close>, and \<open>P\<close> is no longer an own property.
\<close>

theorem deleteNamed_cases:
  assumes "\<not> mustExist opFlags"
    and "rt1 = (if findProperty rt O' P = None \<and> lazyObject (oflags (objects rt O'))
                then initializeLazyObject env rt O' else rt)"
  shows
    "(findProperty rt1 O' P = None \<longrightarrow>
        deleteNamed env rt O' P opFlags = (Inr True, rt1)) \<and>
     (findProperty rt1 O' P = Some desc \<and> \<not> configurable (flags desc) \<longrightarrow>
        deleteNamed env rt O' P opFlags =
          (if throwOnError opFlags then (Inl TypeError, rt1) else (Inr False, rt1))) \<and>
     (findProperty rt1 O' P = Some desc \<and> configurable (flags desc) \<longrightarrow>
        (case deleteNamed env rt O' P opFlags of
           (r, rt') \<Rightarrow>
             r = Inr True \<and>
             objects rt' O' = (setSlot (objects rt1 O') (slot desc) EmptyValue)\<lparr>clazz := nextCell rt1\<rparr> \<and>
             getClass rt' O' =
               (getClass rt1 O')\<lparr>propertyMap := filter (\<lambda>(k, d). k \<noteq> P) (propertyMap (getClass rt1 O')),
                                 forInCache := None\<rparr> \<and>
             (\<forall>a. a \<noteq> O' \<longrightarrow> objects rt' a = objects rt1 a) \<and>
             findProperty rt' O' P = None))"
proof (cases "findProperty rt O' P = None \<and> lazyObject (oflags (objects rt O'))")
  case True
  have r: "rt1 = initializeLazyObject env rt O'" unfolding assms(2) using True by auto
  show ?thesis
    using assms(1) True
    unfolding r
    by (auto simp: deleteNamed_def Let_def setNamedSlotValue_def deleteProperty_def allocClass_def
        updObject_def getClass_def findProperty_def HiddenClass_findProperty_def map_of_filter_out
        setSlot_def)
next
  case False
  have r: "rt1 = rt" unfolding assms(2) using False by auto
  show ?thesis
    using assms(1) False
    unfolding r
    by (auto simp: deleteNamed_def Let_def setNamedSlotValue_def deleteProperty_def allocClass_def
        updObject_def getClass_def findProperty_def HiddenClass_findProperty_def map_of_filter_out
        setSlot_def)
qed

theorem deleteNamed_cases_witness:
  "deleteNamed idleEnv propHeap 1 (Identifier ''z'') quiet = (Inr True, propHeap) \<and>
   deleteNamed idleEnv propHeap 1 (Identifier ''x'') throwing = (Inl TypeError, propHeap) \<and>
   findProperty (snd (deleteNamed idleEnv propHeap 1 (Identifier ''y'') quiet)) 1 (Identifier ''y'') = None \<and>
   deleteNamed idleEnv lazyHeap 1 (Identifier ''p'') quiet = (Inr True, initializeLazyObject idleEnv lazyHeap 1) \<and>
   deleteNamed definingEnv lazyHeap 4 (Identifier ''prototype'') throwing
     = (Inl TypeError, initializeLazyObject definingEnv lazyHeap 4) \<and>
   findProperty (initializeLazyObject definingEnv lazyHeap 4) 4 (Identifier ''length'') \<noteq> None \<and>
   fst (deleteNamed definingEnv lazyHeap 4 (Identifier ''length'') throwing) = Inr True \<and>
   findProperty (snd (deleteNamed definingEnv lazyHeap 4 (Identifier ''length'') throwing)) 4
     (Identifier ''length'') = None"
proof -
  have m: "\<not> mustExist quiet" "\<not> mustExist throwing" "throwOnError throwing"
    by (simp_all add: quiet_def throwing_def)
  have f: "findProperty propHeap 1 (Identifier ''z'') = None"
    "findProperty propHeap 1 (Identifier ''x'') = Some fixedX"
    "findProperty propHeap 1 (Identifier ''y'') = Some accessorY"
    by (simp_all add: findProperty_def getClass_def HiddenClass_findProperty_def propHeap_def emptyClass_def)
  have l: "\<not> lazyObject (oflags (objects propHeap 1))"
    by (simp add: propHeap_def plainObject_def emptyObjectFlags_def)
  have c: "\<not> configurable (flags fixedX)" "configurable (flags accessorY)"
    by (simp_all add: fixedX_def accessorY_def noPropertyFlags_def)
  have z: "findProperty lazyHeap a nm = None" "lazyObject (oflags (objects lazyHeap a))"
    "findProperty (initializeLazyObject idleEnv lazyHeap 1) 1 (Identifier ''p'') = None" for nm a
    by (simp_all add: lazyHeap_def chainHeap_def plainObject_def emptyObjectFlags_def
      findProperty_def getClass_def HiddenClass_findProperty_def emptyClass_def
      initializeLazyObject_def idleEnv_def updObjectFlags_def updObject_def)
  note d = definingEnv_lazyHeap
  have n: "\<not> configurable (flags \<lparr>slot = Suc 0, flags = noPropertyFlags\<lparr>writable := True\<rparr>\<rparr>)"
    "configurable (flags \<lparr>slot = 0, flags = noPropertyFlags\<lparr>configurable := True\<rparr>\<rparr>)"
    by (simp_all add: noPropertyFlags_def)
  have p1: "deleteNamed idleEnv propHeap 1 (Identifier ''z'') quiet = (Inr True, propHeap)"
    using deleteNamed_cases [OF m(1), where rt = propHeap and O' = 1 and P = "Identifier ''z''" and env = idleEnv
        and ?rt1.0 = propHeap] f(1) l
    by simp
  have p2: "deleteNamed idleEnv propHeap 1 (Identifier ''x'') throwing = (Inl TypeError, propHeap)"
    using deleteNamed_cases [OF m(2), where rt = propHeap and O' = 1 and P = "Identifier ''x''" and env = idleEnv
        and desc = fixedX and ?rt1.0 = propHeap] f(2) l c(1) m(3)
    by simp
  have p3: "findProperty (snd (deleteNamed idleEnv propHeap 1 (Identifier ''y'') quiet)) 1 (Identifier ''y'') = None"
    using deleteNamed_cases [OF m(1), where rt = propHeap and O' = 1 and P = "Identifier ''y''" and env = idleEnv
        and desc = accessorY and ?rt1.0 = propHeap] f(3) l c(2)
    by (auto split: prod.splits)
  have q: "deleteNamed idleEnv lazyHeap 1 (Identifier ''p'') quiet = (Inr True, initializeLazyObject idleEnv lazyHeap 1)"
    using deleteNamed_cases [OF m(1), where rt = lazyHeap and O' = 1 and P = "Identifier ''p''" and env = idleEnv
        and ?rt1.0 = "initializeLazyObject idleEnv lazyHeap 1"] z
    by simp
  have r: "deleteNamed definingEnv lazyHeap 4 (Identifier ''prototype'') throwing
     = (Inl TypeError, initializeLazyObject definingEnv lazyHeap 4)"
    using deleteNamed_cases [OF m(2), where rt = lazyHeap and O' = 4 and P = "Identifier ''prototype''"
        and env = definingEnv and ?rt1.0 = "initializeLazyObject definingEnv lazyHeap 4"
        and desc = "\<lparr>slot = Suc 0, flags = noPropertyFlags\<lparr>writable := True\<rparr>\<rparr>"] z(1,2) d(1) n(1) m(3)
    by simp
  have s: "fst (deleteNamed definingEnv lazyHeap 4 (Identifier ''length'') throwing) = Inr True \<and>
      findProperty (snd (deleteNamed definingEnv lazyHeap 4 (Identifier ''length'') throwing)) 4
        (Identifier ''length'') = None"
    using deleteNamed_cases [OF m(2), where rt = lazyHeap and O' = 4 and P = "Identifier ''length''"
        and env = definingEnv and ?rt1.0 = "initializeLazyObject definingEnv lazyHeap 4"
        and desc = "\<lparr>slot = 0, flags = noPropertyFlags\<lparr>configurable := True\<rparr>\<rparr>"] z(1,2) d(2) n(2)
    by (auto split: prod.splits)
  show ?thesis
    using p1 p2 p3 q r s d(2) by simp
qed


text \<open>
  C7 as stated says that the object is unchanged when \<open>P\<close> is absent. On a lazy
  object the call returns true, and the object has changed: it was initialised.
\<close>

theorem deleteNamed_lazy_counterexample:
  "findProperty lazyHeap 1 (Identifier ''p'') = None \<and>
   fst (deleteNamed idleEnv lazyHeap 1 (Identifier ''p'') quiet) = Inr True \<and>
   objects (snd (deleteNamed idleEnv lazyHeap 1 (Identifier ''p'') quiet)) 1 \<noteq> objects lazyHeap 1"
  by (simp add: deleteNamed_def Let_def lazyHeap_def chainHeap_def plainObject_def emptyObjectFlags_def
      findProperty_def getClass_def HiddenClass_findProperty_def emptyClass_def quiet_def
      initializeLazyObject_def idleEnv_def updObjectFlags_def updObject_def)

section \<open>Seal\<close>



















section \<open>What preventExtensions, seal and freeze leave alone\<close>

lemma map_of_mapFlags:
  "map_of (map (\<lambda>(k, d). (k, d\<lparr>flags := f (flags d)\<rparr>)) xs) name
     = map_option (\<lambda>d. d\<lparr>flags := f (flags d)\<rparr>) (map_of xs name)"
  by (induction xs) auto

lemma findProperty_mapFlags:
  assumes "getClass rt' self = mapFlags f (getClass rt self)"
  shows "findProperty rt' self name = map_option (\<lambda>d. d\<lparr>flags := f (flags d)\<rparr>) (findProperty rt self name)"
  using assms by (simp add: findProperty_def HiddenClass_findProperty_def mapFlags_def map_of_mapFlags)

lemma getNamed_own_data:
  assumes "findProperty rt self name = Some desc"
    and "\<not> accessor (flags desc)" and "\<not> hostObject (flags desc)"
  shows "map_option fst (getNamed_RJS env rt self name opFlags cacheEntry)
           = Some (Inr (getNamedSlotValue (objects rt self) desc))"
  using assms by (simp add: getNamed_RJS_def getNamedDescriptor_def)

lemma extensibility_frame:
  assumes "rt' \<in> {preventExtensions rt self, seal rt self, freeze rt self}"
  shows "objects rt' self = (objects rt self)\<lparr>clazz := clazz (objects rt' self), oflags := oflags (objects rt' self)\<rparr>"
    and "a \<noteq> self \<Longrightarrow> objects rt' a = objects rt a"
    and "accessors rt' = accessors rt"
  using assms
  by (auto simp: preventExtensions_def seal_def freeze_def makeAllNonConfigurable_def makeAllReadOnly_def
      allocClass_def updObject_def updObjectFlags_def Let_def)

lemma extensibility_class:
  assumes "rt' \<in> {preventExtensions rt self, seal rt self, freeze rt self}"
  shows "\<exists>f. (\<forall>fl. accessor (f fl) = accessor fl \<and> hostObject (f fl) = hostObject fl) \<and>
             findProperty rt' self name = map_option (\<lambda>d. d\<lparr>flags := f (flags d)\<rparr>) (findProperty rt self name)"
proof -
  consider "clazz (objects rt' self) = clazz (objects rt self)" "classes rt' = classes rt"
    | "getClass rt' self = mapFlags (\<lambda>fl. fl\<lparr>configurable := False\<rparr>) (getClass rt self)"
    | "getClass rt' self = mapFlags (\<lambda>fl. if accessor fl then fl\<lparr>configurable := False\<rparr>
                        else fl\<lparr>configurable := False, writable := False\<rparr>) (getClass rt self)"
    using assms
    by (auto simp: preventExtensions_def seal_def freeze_def makeAllNonConfigurable_def makeAllReadOnly_def
        allocClass_def updObject_def updObjectFlags_def Let_def getClass_def split: if_splits)
  then show ?thesis
  proof cases
    case 1
    then have "findProperty rt' self name = findProperty rt self name"
      by (simp add: findProperty_def getClass_def)
    then show ?thesis
      by (intro exI [of _ "\<lambda>fl. fl"]) (simp add: option.map_ident)
  next
    case 2
    show ?thesis
      by (intro exI [of _ "\<lambda>fl. fl\<lparr>configurable := False\<rparr>"]) (simp add: findProperty_mapFlags [OF 2])
  next
    case 3
    show ?thesis
      by (intro exI [of _ "\<lambda>fl. if accessor fl then fl\<lparr>configurable := False\<rparr>
                        else fl\<lparr>configurable := False, writable := False\<rparr>"])
        (simp add: findProperty_mapFlags [OF 3])
  qed
qed

text \<open>
  C10. After \<open>preventExtensions\<close>, \<open>seal\<close> or \<open>freeze\<close> of \<open>O\<close>, the object is the
  old one but for its class pointer and its flags (so the parent pointer, the direct and
  indirect slots and the indexed storage are as before), every other object is
  unchanged, and for every own data property \<open>P\<close> that existed before the call,
  \<open>getNamed(O, P)\<close> returns the same value before and after: the value of its slot.
\<close>

theorem extensibility_preserves_values:
  assumes "rt' \<in> {preventExtensions rt O', seal rt O', freeze rt O'}"
  shows "objects rt' O' =
           (objects rt O')\<lparr>clazz := clazz (objects rt' O'), oflags := oflags (objects rt' O')\<rparr> \<and>
         (\<forall>a. a \<noteq> O' \<longrightarrow> objects rt' a = objects rt a) \<and>
         (\<forall>P desc. findProperty rt O' P = Some desc \<and> \<not> accessor (flags desc) \<and> \<not> hostObject (flags desc) \<longrightarrow>
            map_option fst (getNamed_RJS env rt O' P opFlags cacheEntry)
              = Some (Inr (getNamedSlotValue (objects rt O') desc)) \<and>
            map_option fst (getNamed_RJS env rt' O' P opFlags cacheEntry)
              = Some (Inr (getNamedSlotValue (objects rt O') desc)))"
proof (intro conjI allI impI)
  show "objects rt' O' =
           (objects rt O')\<lparr>clazz := clazz (objects rt' O'), oflags := oflags (objects rt' O')\<rparr>"
    using assms by (rule extensibility_frame(1))
  show "objects rt' a = objects rt a" if "a \<noteq> O'" for a
    using assms that by (rule extensibility_frame(2))
next
  fix P desc
  assume a: "findProperty rt O' P = Some desc \<and> \<not> accessor (flags desc) \<and> \<not> hostObject (flags desc)"
  then show "map_option fst (getNamed_RJS env rt O' P opFlags cacheEntry)
              = Some (Inr (getNamedSlotValue (objects rt O') desc))"
    using getNamed_own_data by simp
  obtain f where f: "\<forall>fl. accessor (f fl) = accessor fl \<and> hostObject (f fl) = hostObject fl"
    "findProperty rt' O' P = map_option (\<lambda>d. d\<lparr>flags := f (flags d)\<rparr>) (findProperty rt O' P)"
    using extensibility_class [OF assms, of P] by blast
  have same: "getNamedSlotValue (objects rt' O') (desc\<lparr>flags := f (flags desc)\<rparr>)
                = getNamedSlotValue (objects rt O') desc"
  proof -
    have "directProps (objects rt' O') = directProps (objects rt O')"
      "propStorage (objects rt' O') = propStorage (objects rt O')"
      by (subst extensibility_frame(1) [OF assms], simp)+
    then show ?thesis by (simp add: getNamedSlotValue_def split: option.splits)
  qed
  show "map_option fst (getNamed_RJS env rt' O' P opFlags cacheEntry)
              = Some (Inr (getNamedSlotValue (objects rt O') desc))"
    using getNamed_own_data [of rt' O' P "desc\<lparr>flags := f (flags desc)\<rparr>" env opFlags cacheEntry]
      a f same by simp
qed

theorem extensibility_preserves_values_witness:
  "freeze propHeap 1 \<in> {preventExtensions propHeap 1, seal propHeap 1, freeze propHeap 1} \<and>
   directProps (objects (freeze propHeap 1) 1) = directProps (objects propHeap 1) \<and>
   map_option fst (getNamed_RJS idleEnv (freeze propHeap 1) 1 (Identifier ''x'') quiet False)
     = Some (Inr (NumberValue (Finite 1))) \<and>
   map_option fst (getNamed_RJS idleEnv propHeap 1 (Identifier ''x'') quiet False)
     = Some (Inr (NumberValue (Finite 1)))"
proof -
  have m: "freeze propHeap 1 \<in> {preventExtensions propHeap 1, seal propHeap 1, freeze propHeap 1}"
    by simp
  have f: "findProperty propHeap 1 (Identifier ''x'') = Some fixedX"
    by (simp add: findProperty_def getClass_def HiddenClass_findProperty_def propHeap_def emptyClass_def)
  have c: "\<not> accessor (flags fixedX)" "\<not> hostObject (flags fixedX)"
    by (simp_all add: fixedX_def noPropertyFlags_def)
  have v: "getNamedSlotValue (objects propHeap 1) fixedX = NumberValue (Finite 1)"
    by (simp add: getNamedSlotValue_def propHeap_def plainObject_def fixedX_def
        DIRECT_PROPERTY_SLOTS_def valueAt_def)
  have d: "objects (freeze propHeap 1) 1 =
           (objects propHeap 1)\<lparr>clazz := clazz (objects (freeze propHeap 1) 1),
                                oflags := oflags (objects (freeze propHeap 1) 1)\<rparr>"
    using extensibility_preserves_values [OF m] by blast
  have "directProps (objects (freeze propHeap 1) 1) = directProps (objects propHeap 1)"
    by (subst d) simp
  moreover have "map_option fst (getNamed_RJS idleEnv propHeap 1 (Identifier ''x'') quiet False)
              = Some (Inr (getNamedSlotValue (objects propHeap 1) fixedX)) \<and>
            map_option fst (getNamed_RJS idleEnv (freeze propHeap 1) 1 (Identifier ''x'') quiet False)
              = Some (Inr (getNamedSlotValue (objects propHeap 1) fixedX))"
    using extensibility_preserves_values [OF m, where env = idleEnv and opFlags = quiet and cacheEntry = False]
      f c
    by blast
  ultimately show ?thesis
    using m v by simp
qed

section \<open>The fast-index invariant\<close>




































section \<open>hasNamedOrIndexed\<close>

lemma getNamedDescriptorLoop_walk:
  "chainEnds rt n (Some a) \<Longrightarrow> noLazyOnChain rt n a \<Longrightarrow>
   \<exists>r. getNamedDescriptorLoop env rt a name = Some (r, rt) \<and>
       (r \<noteq> None) = namedOrHostOnChain rt n a name"
proof (induction n arbitrary: a)
  case 0
  then show ?case by simp
next
  case (Suc n)
  have nl: "\<not> lazyObject (oflags (objects rt a))"
    using Suc.prems(2) by (simp add: noLazyOnChain_def)
  show ?case
  proof (cases "ObjectFlags.hostObject (oflags (objects rt a))")
    case True
    then show ?thesis
      using nl by (subst getNamedDescriptorLoop.simps) (simp add: namedOrHostOnChain_def)
  next
    case host: False
    show ?thesis
    proof (cases "findProperty rt a name")
      case (Some d)
      then show ?thesis
        using nl host by (subst getNamedDescriptorLoop.simps) (simp add: namedOrHostOnChain_def)
    next
      case None
      show ?thesis
      proof (cases "parent (objects rt a)")
        case np: None
        then show ?thesis
          using nl host None by (subst getNamedDescriptorLoop.simps) (simp add: namedOrHostOnChain_def)
      next
        case (Some p)
        have "chainEnds rt n (Some p)" "noLazyOnChain rt n p"
          using Suc.prems Some by (simp_all add: noLazyOnChain_def)
        from Suc.IH [OF this] obtain r where
          r: "getNamedDescriptorLoop env rt p name = Some (r, rt)"
             "(r \<noteq> None) = namedOrHostOnChain rt n p name"
          by blast
        show ?thesis
          using nl host None Some r
          by (subst getNamedDescriptorLoop.simps) (simp add: namedOrHostOnChain_def)
      qed
    qed
  qed
qed

lemma hasNamed_walk:
  assumes "chainEnds rt n (Some a)" and "noLazyOnChain rt n a"
  shows "hasNamed env rt a name = Some (namedOrHostOnChain rt n a name, rt)"
proof (cases n)
  case 0
  then show ?thesis using assms by simp
next
  case (Suc m)
  have nl: "\<not> lazyObject (oflags (objects rt a))"
    using assms(2) Suc by (simp add: noLazyOnChain_def)
  show ?thesis
  proof (cases "parent (objects rt a)")
    case None
    then show ?thesis
      using nl Suc
      by (auto simp: hasNamed_def getNamedDescriptor_def namedOrHostOnChain_def split: option.splits)
  next
    case (Some p)
    have "chainEnds rt m (Some p)" "noLazyOnChain rt m p"
      using assms Some Suc by (simp_all add: noLazyOnChain_def)
    from getNamedDescriptorLoop_walk [OF this, of env name] obtain r where
      r: "getNamedDescriptorLoop env rt p name = Some (r, rt)"
         "(r \<noteq> None) = namedOrHostOnChain rt m p name"
      by blast
    show ?thesis
      using nl Suc Some r
      by (auto simp: hasNamed_def getNamedDescriptor_def namedOrHostOnChain_def split: option.splits)
  qed
qed

text \<open>
  C4, as the code has it. Let the name parse as the index \<open>i\<close>, on a chain that ends
  and has no lazy object. \<open>hasNamedOrIndexed\<close> returns true when the object has indexed
  storage and owns the indexed slot \<open>i\<close>; otherwise (the case of an object with indexed
  storage whose fast-index flag is set apart) it returns what \<open>hasNamed\<close> returns: true
  exactly when an object of the chain, the object itself included, has a named property
  of that name or is a host object. The indexed slots of the prototypes are not looked at.
\<close>

theorem hasNamedOrIndexed_result:
  assumes "chainEnds rt n (Some O')" and "noLazyOnChain rt n O'"
    and "toArrayIndex (getStringView name) = Some i"
    and "\<not> (indexedStorage (oflags (objects rt O')) \<and> fastIndexProperties (oflags (objects rt O')) \<and>
            \<not> haveOwnIndexed (objects rt O') i)"
  shows "hasNamedOrIndexed env rt O' name =
           Some ((indexedStorage (oflags (objects rt O')) \<and> haveOwnIndexed (objects rt O') i) \<or>
                 namedOrHostOnChain rt n O' name, rt)"
  using assms(3,4) hasNamed_walk [OF assms(1,2), of env name]
  by (auto simp: hasNamedOrIndexed_def)

lemma hostHeap_eval:
  "objects hostHeap 5 = (plainObject None 0)\<lparr>kind := HostObjectKind,
                              oflags := emptyObjectFlags\<lparr>ObjectFlags.hostObject := True\<rparr>\<rparr>"
  "objects hostHeap 2 = (plainObject None 0)\<lparr>kind := ArrayKind,
                              oflags := emptyObjectFlags\<lparr>indexedStorage := True\<rparr>,
                              indexedImpl := Some \<lparr>ownIndexedRange = (0, 4),
                                ownIndexed = (\<lambda>i. if i = 3 then Some (noPropertyFlags, NullValue) else None)\<rparr>\<rparr>"
  "objects hostHeap 3 = plainObject (Some 2) 0"
  "classes hostHeap c = emptyClass"
  by (simp_all add: hostHeap_def chainHeap_def)

lemma toArrayIndex_3: "toArrayIndex ''3'' = Some 3"
  by (simp add: toArrayIndex_def digitOf_def)

theorem hasNamedOrIndexed_result_witness:
  "hasNamedOrIndexed idleEnv hostHeap 5 (Identifier ''3'') = Some (True, hostHeap) \<and>
   hasNamedOrIndexed idleEnv hostHeap 3 (Identifier ''3'') = Some (False, hostHeap)"
proof -
  have c: "chainEnds hostHeap (Suc (Suc 0)) (Some 5)" "chainEnds hostHeap (Suc (Suc 0)) (Some 3)"
    by (simp_all add: hostHeap_eval plainObject_def)
  have l: "noLazyOnChain hostHeap (Suc (Suc 0)) 5" "noLazyOnChain hostHeap (Suc (Suc 0)) 3"
    by (simp_all add: noLazyOnChain_def hostHeap_eval plainObject_def emptyObjectFlags_def)
  have t: "toArrayIndex (getStringView (Identifier ''3'')) = Some 3"
    by (simp add: toArrayIndex_3)
  have f: "\<not> (indexedStorage (oflags (objects hostHeap 5)) \<and> fastIndexProperties (oflags (objects hostHeap 5)) \<and>
            \<not> haveOwnIndexed (objects hostHeap 5) 3)"
    "\<not> (indexedStorage (oflags (objects hostHeap 3)) \<and> fastIndexProperties (oflags (objects hostHeap 3)) \<and>
            \<not> haveOwnIndexed (objects hostHeap 3) 3)"
    by (simp_all add: hostHeap_eval plainObject_def emptyObjectFlags_def)
  have n: "namedOrHostOnChain hostHeap (Suc (Suc 0)) 5 (Identifier ''3'')"
    "\<not> namedOrHostOnChain hostHeap (Suc (Suc 0)) 3 (Identifier ''3'')"
    "\<not> indexedStorage (oflags (objects hostHeap 3))" "\<not> indexedStorage (oflags (objects hostHeap 5))"
    by (simp_all add: namedOrHostOnChain_def hostHeap_eval plainObject_def
        emptyObjectFlags_def findProperty_def getClass_def HiddenClass_findProperty_def emptyClass_def)
  show ?thesis
    using hasNamedOrIndexed_result [OF c(1) l(1) t f(1), of idleEnv]
      hasNamedOrIndexed_result [OF c(2) l(2) t f(2), of idleEnv] n
    by simp
qed

text \<open>
  C4 as stated fails in both directions. The host object 5 has neither an indexed slot
  3 nor a named property \<open>3\<close>, and the call returns true. The plain object 3 has the
  prototype 2, which owns the indexed slot 3, and the call returns false.
\<close>

theorem hasNamedOrIndexed_counterexample:
  "hasNamedOrIndexed idleEnv hostHeap 5 (Identifier ''3'') = Some (True, hostHeap) \<and>
   \<not> specHasNamedOrIndexed hostHeap (Suc (Suc 0)) 5 (Identifier ''3'') 3 \<and>
   hasNamedOrIndexed idleEnv hostHeap 3 (Identifier ''3'') = Some (False, hostHeap) \<and>
   specHasNamedOrIndexed hostHeap (Suc (Suc 0)) 3 (Identifier ''3'') 3"
proof -
  have c: "chainEnds hostHeap (Suc (Suc 0)) (Some 5)" "chainEnds hostHeap (Suc (Suc 0)) (Some 3)"
    by (simp_all add: hostHeap_eval plainObject_def)
  have l: "noLazyOnChain hostHeap (Suc (Suc 0)) 5" "noLazyOnChain hostHeap (Suc (Suc 0)) 3"
    by (simp_all add: noLazyOnChain_def hostHeap_eval plainObject_def emptyObjectFlags_def)
  have n: "namedOrHostOnChain hostHeap (Suc (Suc 0)) 5 (Identifier ''3'')"
    "\<not> namedOrHostOnChain hostHeap (Suc (Suc 0)) 3 (Identifier ''3'')"
    "\<not> indexedStorage (oflags (objects hostHeap 3))" "\<not> indexedStorage (oflags (objects hostHeap 5))"
    by (simp_all add: namedOrHostOnChain_def hostHeap_eval plainObject_def
        emptyObjectFlags_def findProperty_def getClass_def HiddenClass_findProperty_def emptyClass_def)
  have s: "\<not> specHasNamedOrIndexed hostHeap (Suc (Suc 0)) 5 (Identifier ''3'') 3"
    "specHasNamedOrIndexed hostHeap (Suc (Suc 0)) 3 (Identifier ''3'') 3"
    by (simp_all add: specHasNamedOrIndexed_def hostHeap_eval plainObject_def
        haveOwnIndexed_def findProperty_def getClass_def HiddenClass_findProperty_def emptyClass_def)
  show ?thesis
    using hasNamed_walk [OF c(1) l(1), of idleEnv "Identifier ''3''"]
      hasNamed_walk [OF c(2) l(2), of idleEnv "Identifier ''3''"] n s
    by (simp add: hasNamedOrIndexed_def)
qed

end
